theory Spec2Isabelle
  imports Complex_Main "HOL-Library.Char_ord" "HOL-Library.List_Lexorder"
    "HOL-Library.Product_Lexorder"
begin

section \<open>Numbers of the pipeline\<close>

text \<open>
  The pipeline computes on pandas columns of IEEE doubles. A float is modelled as an exact
  real (\<open>Fin\<close>) or one of the special values the code can produce: dividing by zero gives
  an infinity or NaN (numpy warns, it does not raise), NaN makes every comparison false and
  propagates through arithmetic. In this first model finite arithmetic is exact: rounding
  error, overflow and the sign of zero are left out, and zero is +0.0. Where a property
  depends on the rounding of doubles (the outlier flags of nearly equal values), the
  operations are given a second time with the rounding of IEEE binary64 after each step
  (section Binary64 arithmetic).
\<close>

datatype pyfloat = Fin real | PInf | NInf | NaN

fun fneg :: "pyfloat \<Rightarrow> pyfloat" where
  "fneg (Fin a) = Fin (- a)"
| "fneg PInf = NInf"
| "fneg NInf = PInf"
| "fneg NaN = NaN"

fun fadd :: "pyfloat \<Rightarrow> pyfloat \<Rightarrow> pyfloat" where
  "fadd NaN _ = NaN"
| "fadd _ NaN = NaN"
| "fadd (Fin a) (Fin b) = Fin (a + b)"
| "fadd PInf NInf = NaN"
| "fadd NInf PInf = NaN"
| "fadd PInf _ = PInf"
| "fadd NInf _ = NInf"
| "fadd (Fin a) PInf = PInf"
| "fadd (Fin a) NInf = NInf"

definition fsub :: "pyfloat \<Rightarrow> pyfloat \<Rightarrow> pyfloat" where
  "fsub x y = fadd x (fneg y)"

fun fmul :: "pyfloat \<Rightarrow> pyfloat \<Rightarrow> pyfloat" where
  "fmul NaN _ = NaN"
| "fmul _ NaN = NaN"
| "fmul (Fin a) (Fin b) = Fin (a * b)"
| "fmul PInf (Fin b) = (if b > 0 then PInf else if b < 0 then NInf else NaN)"
| "fmul NInf (Fin b) = (if b > 0 then NInf else if b < 0 then PInf else NaN)"
| "fmul (Fin a) PInf = (if a > 0 then PInf else if a < 0 then NInf else NaN)"
| "fmul (Fin a) NInf = (if a > 0 then NInf else if a < 0 then PInf else NaN)"
| "fmul PInf PInf = PInf"
| "fmul NInf NInf = PInf"
| "fmul PInf NInf = NInf"
| "fmul NInf PInf = NInf"

fun fdiv :: "pyfloat \<Rightarrow> pyfloat \<Rightarrow> pyfloat" where
  "fdiv NaN _ = NaN"
| "fdiv _ NaN = NaN"
| "fdiv (Fin a) (Fin b) =
     (if b \<noteq> 0 then Fin (a / b)
      else if a > 0 then PInf else if a < 0 then NInf else NaN)"
| "fdiv (Fin a) _ = Fin 0"
| "fdiv PInf (Fin b) = (if b \<ge> 0 then PInf else NInf)"
| "fdiv NInf (Fin b) = (if b \<ge> 0 then NInf else PInf)"
| "fdiv _ _ = NaN"

fun fless :: "pyfloat \<Rightarrow> pyfloat \<Rightarrow> bool" where
  "fless NaN _ = False"
| "fless _ NaN = False"
| "fless (Fin a) (Fin b) = (a < b)"
| "fless PInf _ = False"
| "fless NInf NInf = False"
| "fless NInf _ = True"
| "fless (Fin a) PInf = True"
| "fless (Fin a) NInf = False"

fun fle :: "pyfloat \<Rightarrow> pyfloat \<Rightarrow> bool" where
  "fle NaN _ = False"
| "fle _ NaN = False"
| "fle (Fin a) (Fin b) = (a \<le> b)"
| "fle NInf _ = True"
| "fle PInf PInf = True"
| "fle PInf _ = False"
| "fle (Fin a) PInf = True"
| "fle (Fin a) NInf = False"

definition fgt :: "pyfloat \<Rightarrow> pyfloat \<Rightarrow> bool" where
  "fgt x y = fless y x"

definition fge :: "pyfloat \<Rightarrow> pyfloat \<Rightarrow> bool" where
  "fge x y = fle y x"

definition isna :: "pyfloat \<Rightarrow> bool" where
  "isna x = (x = NaN)"

definition rint :: "real \<Rightarrow> int" where
  "rint x =
     (let f = \<lfloor>x\<rfloor>; d = x - of_int f
      in if d < 1 / 2 then f
         else if d > 1 / 2 then f + 1
         else if even f then f else f + 1)"

definition round_dp :: "nat \<Rightarrow> real \<Rightarrow> real" where
  "round_dp n x = of_int (rint (x * 10 ^ n)) / 10 ^ n"

fun fround :: "nat \<Rightarrow> pyfloat \<Rightarrow> pyfloat" where
  "fround n (Fin a) = Fin (round_dp n a)"
| "fround n x = x"

definition py_max :: "pyfloat \<Rightarrow> pyfloat \<Rightarrow> pyfloat" where
  "py_max a b = (if fgt b a then b else a)"

text \<open>The exceptions the modelled functions raise (\<open>ReError\<close> is \<open>re.error\<close>).\<close>

datatype py_error = ValueError | OverflowError | KeyError | ZeroDivisionError | ReError

section \<open>Binary64 arithmetic\<close>

text \<open>
  numpy and Python compute on IEEE binary64 numbers: the exact result of an operation is
  rounded to the nearest number with a 53-bit significand, ties to the even significand.
  \<open>ilog2 x\<close> is the exponent \<open>e\<close> of a positive \<open>x\<close>, with \<open>2^e \<le> x < 2^(e+1)\<close>; numbers below
  \<open>2^-1022\<close> are subnormal (spacing \<open>2^-1074\<close>), and a result that rounds to \<open>2^1024\<close> or
  more is an infinity. A double is the real number it stands for.
\<close>

fun bit_length :: "nat \<Rightarrow> nat" where
  "bit_length n = (if n = 0 then 0 else Suc (bit_length (n div 2)))"

declare bit_length.simps [simp del]

definition ilog2 :: "real \<Rightarrow> int" where
  "ilog2 x =
     (if x \<ge> 1 then int (bit_length (nat \<lfloor>x\<rfloor>)) - 1
      else - int (bit_length (nat (\<lceil>1 / x\<rceil> - 1))))"

definition rnd64 :: "real \<Rightarrow> pyfloat" where
  "rnd64 x =
     (if x = 0 then Fin 0
      else let e = max (ilog2 \<bar>x\<bar>) (- 1022);
               ulp = 2 powi (e - 52);
               y = of_int (rint (\<bar>x\<bar> / ulp)) * ulp
           in if y \<ge> 2 powi 1024 then (if x > 0 then PInf else NInf)
              else Fin (sgn x * y))"

definition f64 :: "pyfloat \<Rightarrow> pyfloat" where
  "f64 x = (case x of Fin a \<Rightarrow> rnd64 a | _ \<Rightarrow> x)"

definition fadd64 :: "pyfloat \<Rightarrow> pyfloat \<Rightarrow> pyfloat" where
  "fadd64 x y = f64 (fadd x y)"

definition fsub64 :: "pyfloat \<Rightarrow> pyfloat \<Rightarrow> pyfloat" where
  "fsub64 x y = f64 (fsub x y)"

definition fmul64 :: "pyfloat \<Rightarrow> pyfloat \<Rightarrow> pyfloat" where
  "fmul64 x y = f64 (fmul x y)"

definition fdiv64 :: "pyfloat \<Rightarrow> pyfloat \<Rightarrow> pyfloat" where
  "fdiv64 x y = f64 (fdiv x y)"


section \<open>Data health score (data_quality.py)\<close>

text \<open>
  A row of \<open>store_health\<close> as \<open>compute_health_score\<close> reads it. The function starts at
  100, subtracts the four weighted percentages and the flat 10 points of an unreliable
  store, and returns \<open>max(round(s, 1), 0)\<close>.
\<close>

record store_health_row =
  pct_negative :: pyfloat
  pct_missing_rrp :: pyfloat
  pct_outliers :: pyfloat
  pct_missing_all_cols :: pyfloat
  Unreliable_Store :: bool

definition compute_health_score :: "'a store_health_row_scheme \<Rightarrow> pyfloat" where
  "compute_health_score row =
     (let s = Fin 100;
          s = fsub s (fmul (pct_negative row) (Fin (20 / 100)));
          s = fsub s (fmul (pct_missing_rrp row) (Fin (15 / 100)));
          s = fsub s (fmul (pct_outliers row) (Fin (30 / 100)));
          s = fsub s (fmul (pct_missing_all_cols row) (Fin (25 / 100)));
          s = (if Unreliable_Store row then fsub s (Fin 10) else s)
      in py_max (fround 1 s) (Fin 0))"



section \<open>Action recommender (pi_summary.py)\<close>

text \<open>
  \<open>get_action\<close> formats the weekly gain with \<open>f"{gain:,.0f}"\<close>: decimal digits with a
  comma between groups of three. The arrow and the dash of the source's texts are written
  as their UTF-8 bytes.
\<close>

definition digit_char :: "nat \<Rightarrow> char" where
  "digit_char d = ''0123456789'' ! d"

fun digits10 :: "nat \<Rightarrow> string" where
  "digits10 n = (if n < 10 then [digit_char n] else digits10 (n div 10) @ [digit_char (n mod 10)])"

declare digits10.simps [simp del]

fun commas :: "string \<Rightarrow> string" where
  "commas (a # b # c # d # rest) = a # b # c # CHR '','' # commas (d # rest)"
| "commas xs = xs"

definition fmt_thousands :: "int \<Rightarrow> string" where
  "fmt_thousands i =
     (if i < 0 then CHR ''-'' # rev (commas (rev (digits10 (nat (- i)))))
      else rev (commas (rev (digits10 (nat i)))))"

definition arrow :: string where
  "arrow = [CHR 0xE2, CHR 0x86, CHR 0x92]"

definition emdash :: string where
  "emdash = [CHR 0xE2, CHR 0x80, CHR 0x94]"

text \<open>
  A row of \<open>action_df\<close> as \<open>get_action\<close> reads it: \<open>Price_Index\<close> is NaN when the section
  has no competitor rows, \<open>Current_Discount\<close> is the column \<open>Current_Discount_%\<close>.
\<close>

record action_row =
  Price_Index :: pyfloat
  Current_Discount :: pyfloat
  Weekly_Gain_KSh :: int

definition get_action :: "action_row \<Rightarrow> string \<times> string" where
  "get_action row =
     (let idx = Price_Index row;
          disc = Current_Discount row;
          gain = Weekly_Gain_KSh row
      in if isna idx then
           (if fgt disc (Fin 12) then
              (''Too discounted'',
               ''Reduce to 9% off '' @ arrow @ '' +KSh '' @ fmt_thousands gain @ ''/week'')
            else if fless disc (Fin 5) then
              (''Premium'', ''Keep '' @ emdash @ '' protect margin'')
            else (''Balanced'', ''Monitor''))
         else if fless idx (Fin (98 / 100)) \<and> fgt disc (Fin 10) then
           (''Too cheap + deep'',
            ''Raise to 9% off '' @ arrow @ '' +KSh '' @ fmt_thousands gain @ ''/week'')
         else if fless idx (Fin (98 / 100)) then
           (''Too cheap'', ''Raise price '' @ arrow @ '' +KSh '' @ fmt_thousands gain @ ''/week'')
         else if fgt idx (Fin (105 / 100)) \<and> fgt disc (Fin 10) then
           (''Too expensive + deep'',
            ''Cut discount '' @ arrow @ '' +KSh '' @ fmt_thousands gain @ ''/week'')
         else if fgt disc (Fin 12) then
           (''Too discounted'',
            ''Reduce to 9% '' @ arrow @ '' +KSh '' @ fmt_thousands gain @ ''/week'')
         else if fless disc (Fin 5) \<and> fgt idx (Fin (102 / 100)) then
           (''Premium gold'', ''Keep '' @ emdash @ '' winning'')
         else (''Balanced'', ''Monitor''))"

section \<open>Promotion detector (promotions.py)\<close>

text \<open>
  \<open>Date Of Sale\<close> after \<open>pd.to_datetime\<close> is a valid calendar date (month 1 to 12, day
  within the month). \<open>strftime('%Y-%U')\<close> gives the year and the week of the year with
  Sunday as the first day of the week; the days before the first Sunday of a year are in
  week 00.
\<close>

record date =
  year :: nat
  month :: nat
  day :: nat

definition is_leap :: "nat \<Rightarrow> bool" where
  "is_leap y = (y mod 4 = 0 \<and> (y mod 100 \<noteq> 0 \<or> y mod 400 = 0))"

definition days_before_month :: "nat \<Rightarrow> nat \<Rightarrow> nat" where
  "days_before_month y m =
     [0, 31, 59, 90, 120, 151, 181, 212, 243, 273, 304, 334] ! (m - 1)
       + (if m > 2 \<and> is_leap y then 1 else 0)"

definition yday :: "date \<Rightarrow> nat" where
  "yday d = days_before_month (year d) (month d) + day d - 1"

definition ordinal :: "date \<Rightarrow> nat" where
  "ordinal d =
     (let y = year d - 1
      in 365 * y + y div 4 - y div 100 + y div 400 + yday d + 1)"

definition wday_sunday :: "date \<Rightarrow> nat" where
  "wday_sunday d = ordinal d mod 7"

definition week_U :: "date \<Rightarrow> nat" where
  "week_U d = (yday d + 7 - wday_sunday d) div 7"

definition pad2 :: "nat \<Rightarrow> string" where
  "pad2 n = (if n < 10 then CHR ''0'' # digits10 n else digits10 n)"

definition year_week :: "date \<Rightarrow> string" where
  "year_week d = digits10 (year d) @ ''-'' @ pad2 (week_U d)"

definition day_name :: "date \<Rightarrow> string" where
  "day_name d =
     [''Sunday'', ''Monday'', ''Tuesday'', ''Wednesday'', ''Thursday'', ''Friday'', ''Saturday'']
       ! wday_sunday d"


text \<open>
  A sale record has the columns of the input table. \<open>detect_promotions\<close> adds the unit
  price, the discount percentage, the week key, the promotion flag and the day name; the
  intermediate column \<open>Is_Promo_Day\<close> is dropped again. The flag of a record is the
  \<open>groupby(['Item_Code', 'Description', 'Year_Week'])\<close> sum of \<open>Is_Promo_Day\<close>, broadcast to
  the records of the group by \<open>transform\<close>, compared with \<open>min_days\<close>.
\<close>

record sale =
  Store_Name :: string
  Item_Code :: int
  Description :: string
  Category :: string
  Section :: string
  Sub_Department :: string
  Supplier :: string
  Quantity :: real
  Total_Sales :: real
  RRP :: real
  Date_Of_Sale :: date

record promo_sale = sale +
  Unit_Price :: pyfloat
  Discount_Pct :: pyfloat
  Year_Week :: string
  On_Promo :: bool
  Day_of_Week :: string

definition unit_price :: "sale \<Rightarrow> pyfloat" where
  "unit_price r = fdiv (Fin (Total_Sales r)) (Fin (Quantity r))"

definition discount_pct :: "sale \<Rightarrow> pyfloat" where
  "discount_pct r = fdiv (fsub (Fin (RRP r)) (unit_price r)) (Fin (RRP r))"

definition is_promo_day :: "real \<Rightarrow> sale \<Rightarrow> bool" where
  "is_promo_day discount_threshold r = fge (discount_pct r) (Fin discount_threshold)"

definition promo_key :: "sale \<Rightarrow> int \<times> string \<times> string" where
  "promo_key r = (Item_Code r, Description r, year_week (Date_Of_Sale r))"

definition promo_days :: "sale list \<Rightarrow> real \<Rightarrow> sale \<Rightarrow> nat" where
  "promo_days df discount_threshold r =
     length (filter (\<lambda>r'. promo_key r' = promo_key r \<and> is_promo_day discount_threshold r') df)"

definition detect_promotions :: "sale list \<Rightarrow> real \<Rightarrow> int \<Rightarrow> promo_sale list" where
  "detect_promotions df discount_threshold min_days =
     map (\<lambda>r. sale.extend r
            \<lparr>Unit_Price = unit_price r,
             Discount_Pct = discount_pct r,
             Year_Week = year_week (Date_Of_Sale r),
             On_Promo = (int (promo_days df discount_threshold r) \<ge> min_days),
             Day_of_Week = day_name (Date_Of_Sale r)\<rparr>) df"

text \<open>
  The count in the words of the specification's data model: the number of days of the
  record's (item, store, week) whose discount percentage reaches the threshold.
\<close>

definition promo_days_spec :: "sale list \<Rightarrow> real \<Rightarrow> sale \<Rightarrow> nat" where
  "promo_days_spec df discount_threshold r =
     length (remdups (map Date_Of_Sale
       (filter (\<lambda>r'. Item_Code r' = Item_Code r \<and> Store_Name r' = Store_Name r
                    \<and> year_week (Date_Of_Sale r') = year_week (Date_Of_Sale r)
                    \<and> fge (discount_pct r') (Fin discount_threshold)) df)))"

text \<open>
  The count in the words of the function's own docstring and comment (``minimum number of
  discounted days in a week'', ``count promo days per SKU per week''): the number of days
  of the record's (item code, description, week), over all stores, on which the discount
  percentage reaches the threshold.
\<close>

definition promo_days_doc :: "sale list \<Rightarrow> real \<Rightarrow> sale \<Rightarrow> nat" where
  "promo_days_doc df discount_threshold r =
     length (remdups (map Date_Of_Sale
       (filter (\<lambda>r'. promo_key r' = promo_key r \<and> is_promo_day discount_threshold r') df)))"

text \<open>One item sold at a 20% discount in two stores on Monday 6 January 2025.\<close>

definition sales2 :: "sale list" where
  "sales2 =
    [\<lparr>Store_Name = ''A'', Item_Code = 1, Description = ''OIL'', Category = ''FOODS'',
      Section = ''OILS'', Sub_Department = ''COOKING'', Supplier = ''BIDCO AFRICA LIMITED'',
      Quantity = 1, Total_Sales = 80, RRP = 100,
      Date_Of_Sale = \<lparr>year = 2025, month = 1, day = 6\<rparr>\<rparr>,
     \<lparr>Store_Name = ''B'', Item_Code = 1, Description = ''OIL'', Category = ''FOODS'',
      Section = ''OILS'', Sub_Department = ''COOKING'', Supplier = ''BIDCO AFRICA LIMITED'',
      Quantity = 1, Total_Sales = 80, RRP = 100,
      Date_Of_Sale = \<lparr>year = 2025, month = 1, day = 6\<rparr>\<rparr>]"

section \<open>Outlier classifier (pricing.py, data_quality.py)\<close>

text \<open>
  \<open>Series.quantile(q)\<close> with the default linear interpolation: on the sorted values the
  position is \<open>h = (n - 1) * q\<close>, and the result interpolates between the values at
  \<open>floor h\<close> and \<open>floor h + 1\<close>. The quantile of an empty series is NaN.
\<close>

definition interp :: "real list \<Rightarrow> real \<Rightarrow> real" where
  "interp s h =
     (let i = nat \<lfloor>h\<rfloor>; frac = h - real i
      in if i + 1 < length s then s ! i + frac * (s ! (i + 1) - s ! i) else s ! i)"

definition quantile :: "real list \<Rightarrow> real \<Rightarrow> pyfloat" where
  "quantile xs q =
     (if xs = [] then NaN else Fin (interp (sort xs) (real (length xs - 1) * q)))"

text \<open>
  The bounds of a group of values: \<open>lower = Q1 - 1.5 * IQR\<close>, \<open>upper = Q3 + 1.5 * IQR\<close>
  with \<open>IQR = Q3 - Q1\<close>.
\<close>

definition iqr_bounds :: "real list \<Rightarrow> pyfloat \<times> pyfloat" where
  "iqr_bounds xs =
     (let Q1 = quantile xs (25 / 100);
          Q3 = quantile xs (75 / 100);
          IQR = fsub Q3 Q1;
          lower = fsub Q1 (fmul (Fin (15 / 10)) IQR);
          upper = fadd Q3 (fmul (Fin (15 / 10)) IQR)
      in (lower, upper))"

definition is_outlier :: "pyfloat \<times> pyfloat \<Rightarrow> real \<Rightarrow> bool" where
  "is_outlier b x = (fless (Fin x) (fst b) \<or> fgt (Fin x) (snd b))"

text \<open>
  \<open>detect_supplier_outliers\<close> (pricing.py) gets the \<open>Unit_Price\<close> column of one item's
  group and \<open>detect_outliers\<close> (data_quality.py) its \<open>RRP\<close> column; both return the column
  \<open>Outlier\<close> they add to the group.
\<close>

definition detect_supplier_outliers :: "real list \<Rightarrow> bool list" where
  "detect_supplier_outliers g = map (is_outlier (iqr_bounds g)) g"

definition detect_outliers :: "real list \<Rightarrow> bool list" where
  "detect_outliers g = map (is_outlier (iqr_bounds g)) g"

text \<open>The unit prices of the specification's scenario: four times 10 and one 100.\<close>

definition prices5 :: "real list" where
  "prices5 = [10, 10, 10, 10, 100]"

text \<open>
  The classifier as the doubles compute it. \<open>Series.quantile\<close> ends in numpy's linear
  method on the sorted values: the virtual index is \<open>(n - 1) * q\<close>, the values at its floor
  and the next index are interpolated by \<open>_lerp(a, b, t)\<close>, which is \<open>a + (b - a) * t\<close> for
  \<open>t < 0.5\<close> and \<open>b - (b - a) * (1 - t)\<close> otherwise, and an index at the top gives the last
  value. For the quartiles the virtual index, \<open>t\<close> and \<open>1 - t\<close> are multiples of 0.25 and
  exact; every other operation rounds. The five lines of the classifiers follow, each
  operation rounded.
\<close>

definition lerp64 :: "pyfloat \<Rightarrow> pyfloat \<Rightarrow> real \<Rightarrow> pyfloat" where
  "lerp64 a b t =
     (let diff_b_a = fsub64 b a
      in if t \<ge> 1 / 2 then fsub64 b (fmul64 diff_b_a (Fin (1 - t)))
         else fadd64 a (fmul64 diff_b_a (Fin t)))"

definition quantile64 :: "real list \<Rightarrow> real \<Rightarrow> pyfloat" where
  "quantile64 xs q =
     (if xs = [] then NaN
      else let s = sort xs;
               virtual_index = real (length xs - 1) * q;
               previous_index = nat \<lfloor>virtual_index\<rfloor>
           in if virtual_index \<ge> real (length xs - 1) then Fin (last s)
              else lerp64 (Fin (s ! previous_index)) (Fin (s ! (previous_index + 1)))
                     (virtual_index - real previous_index))"

definition iqr_bounds64 :: "real list \<Rightarrow> pyfloat \<times> pyfloat" where
  "iqr_bounds64 xs =
     (let Q1 = quantile64 xs (25 / 100);
          Q3 = quantile64 xs (75 / 100);
          IQR = fsub64 Q3 Q1;
          lower = fsub64 Q1 (fmul64 (Fin (15 / 10)) IQR);
          upper = fadd64 Q3 (fmul64 (Fin (15 / 10)) IQR)
      in (lower, upper))"

definition detect_supplier_outliers64 :: "real list \<Rightarrow> bool list" where
  "detect_supplier_outliers64 g = map (is_outlier (iqr_bounds64 g)) g"

definition detect_outliers64 :: "real list \<Rightarrow> bool list" where
  "detect_outliers64 g = map (is_outlier (iqr_bounds64 g)) g"

text \<open>
  Three records of one item at the same price of 10.20 per unit: total sales 10.2, 10.2
  and 30.6 for 1, 1 and 3 units. \<open>d10_2\<close> is the double of 10.2, \<open>d30_6\<close> the double of
  30.6, and \<open>d10_2_up\<close> the next double above \<open>d10_2\<close>, which is what \<open>30.6 / 3\<close> gives
  (Python prints it as 10.200000000000001). \<open>prices3\<close> is the \<open>Unit_Price\<close> column
  \<open>Total Sales / Quantity\<close> of the three records.
\<close>

definition d10_2 :: real where
  "d10_2 = 5742089524897382 / 2 ^ 49"

definition d10_2_up :: real where
  "d10_2_up = 5742089524897383 / 2 ^ 49"

definition d30_6 :: real where
  "d30_6 = 8613134287346074 / 2 ^ 48"

definition prices3 :: "real list" where
  "prices3 = [d10_2, d10_2, d10_2_up]"

section \<open>Price index builder (price_index.py)\<close>

text \<open>
  \<open>Supplier.str.contains(pat, case=False, na=False)\<close> compiles \<open>pat\<close> as a regular
  expression and searches each supplier name for it, ignoring case. For a pattern
  without metacharacters, such as the constant \<open>BIDCO\<close> of the dashboard and the default
  \<open>Bidco\<close> of the price index, that is a search for the text of the pattern, letters
  compared without case: \<open>str_contains_ci\<close>.
\<close>

definition lower_char :: "char \<Rightarrow> char" where
  "lower_char c =
     (case map_of (zip ''ABCDEFGHIJKLMNOPQRSTUVWXYZ'' ''abcdefghijklmnopqrstuvwxyz'') c of
        None \<Rightarrow> c | Some l \<Rightarrow> l)"

fun is_substring :: "string \<Rightarrow> string \<Rightarrow> bool" where
  "is_substring pat [] = (pat = [])"
| "is_substring pat (c # cs) = (take (length pat) (c # cs) = pat \<or> is_substring pat cs)"

definition str_contains_ci :: "string \<Rightarrow> string \<Rightarrow> bool" where
  "str_contains_ci pat s = is_substring (map lower_char pat) (map lower_char s)"

text \<open>
  \<open>build_price_index\<close> takes the pattern from its caller, so any regular expression can
  reach it. The regular-expression engine (Python's \<open>re\<close>, not code of the repository) is a
  parameter of the model: \<open>re_compile pat\<close> is \<open>None\<close> when \<open>pat\<close> does not compile
  (\<open>str.contains\<close> raises \<open>re.error\<close>), and otherwise the predicate ``\<open>pat\<close> matches
  somewhere in the string, ignoring case''. The properties of the builder are proved
  for every engine. \<open>re_compile_plain\<close> is the engine of the examples: on a pattern without
  metacharacters, such as the default \<open>Bidco\<close>, it is Python's engine, the search
  \<open>str_contains_ci\<close>; a pattern with a metacharacter it does not compile, as Python's
  engine does with the malformed ones, such as the unbalanced \<open>Bidco(\<close> (the well-formed
  ones, which Python compiles, are not used in the examples).
\<close>

type_synonym regex_engine = "string \<Rightarrow> (string \<Rightarrow> bool) option"

definition re_metachars :: string where
  "re_metachars = ''.^$*+?{}[]|()'' @ [CHR 0x5C]"

definition re_compile_plain :: regex_engine where
  "re_compile_plain pat =
     (if list_ex (\<lambda>c. c \<in> set re_metachars) pat then None else Some (str_contains_ci pat))"

text \<open>
  The mean of a group's column as \<open>groupby(...).mean()\<close> computes it: NaN cells are
  skipped, and a group without a non-NaN cell has the mean NaN.
\<close>

definition nanmean :: "pyfloat list \<Rightarrow> pyfloat" where
  "nanmean xs =
     (let vs = filter (\<lambda>v. \<not> isna v) xs
      in if vs = [] then NaN else fdiv (fold (\<lambda>v acc. fadd acc v) vs (Fin 0)) (Fin (real (length vs))))"

text \<open>
  \<open>groupby(['Store Name', 'Sub-Department', 'Section'])\<close> gives one row per key, the keys
  sorted; the left merge on the key looks the key up in the right table and leaves NaN
  where it is absent.
\<close>

type_synonym pi_key = "string \<times> string \<times> string"

definition pi_key :: "promo_sale \<Rightarrow> pi_key" where
  "pi_key r = (Store_Name r, Sub_Department r, Section r)"

definition group_keys :: "promo_sale list \<Rightarrow> pi_key list" where
  "group_keys rows = sort (remdups (map pi_key rows))"

definition group_rows :: "promo_sale list \<Rightarrow> pi_key \<Rightarrow> promo_sale list" where
  "group_rows rows k = filter (\<lambda>r. pi_key r = k) rows"

definition groupby_mean :: "promo_sale list \<Rightarrow> (promo_sale \<Rightarrow> pyfloat) \<Rightarrow> (pi_key \<times> pyfloat) list" where
  "groupby_mean rows col = map (\<lambda>k. (k, nanmean (map col (group_rows rows k)))) (group_keys rows)"

definition merge_left :: "(pi_key \<times> pyfloat) list \<Rightarrow> pi_key \<Rightarrow> pyfloat" where
  "merge_left right k = (case map_of right k of None \<Rightarrow> NaN | Some v \<Rightarrow> v)"

text \<open>
  A row of the result. \<open>Target_Avg_Price\<close> is the column \<open>{target_supplier}_Avg_Price\<close>.
  The input frame is the one \<open>detect_promotions\<close> returns: it has the columns
  \<open>Unit_Price\<close> and \<open>Discount_Pct\<close>. For the target \<open>Comp\<close> the target's column has the
  name of the competitors' column \<open>Comp_Avg_Price\<close>; the merge then renames both (\<open>_x\<close>,
  \<open>_y\<close>) and the next statement, which reads them by name, raises \<open>KeyError\<close>.
\<close>

record price_index_row =
  PI_Store_Name :: string
  PI_Sub_Department :: string
  PI_Section :: string
  Target_Avg_Price :: pyfloat
  Comp_Avg_Price :: pyfloat
  PI_Price_Index :: pyfloat
  Avg_RRP :: pyfloat
  Avg_Discount_Pct :: pyfloat

definition build_price_index ::
    "regex_engine \<Rightarrow> promo_sale list \<Rightarrow> string \<Rightarrow> py_error + price_index_row list" where
  "build_price_index re_compile df target_supplier =
     (case re_compile target_supplier of
        None \<Rightarrow> Inl ReError
      | Some search \<Rightarrow>
         (let mask_target = (\<lambda>r. search (Supplier r));
              df_target = filter mask_target df;
              df_comp = filter (\<lambda>r. \<not> mask_target r) df;
              comp_avg = groupby_mean df_comp Unit_Price;
              target_avg = groupby_mean df_target Unit_Price;
              price_index = map (\<lambda>(k, t). (k, t, merge_left comp_avg k)) target_avg
          in if target_supplier = ''Comp'' then Inl KeyError
             else
               (let price_index = map (\<lambda>(k, t, c). (k, t, c, fround 3 (fdiv t c))) price_index;
                    price_index = filter (\<lambda>(k, t, c, p). \<not> isna c) price_index;
                    avg_rrp = groupby_mean df_target (\<lambda>r. Fin (RRP r));
                    avg_disc = groupby_mean df_target Discount_Pct
                in Inr (map (\<lambda>((store, sub, sec), t, c, p).
                     \<lparr>PI_Store_Name = store, PI_Sub_Department = sub, PI_Section = sec,
                      Target_Avg_Price = t, Comp_Avg_Price = c, PI_Price_Index = p,
                      Avg_RRP = merge_left avg_rrp (store, sub, sec),
                      Avg_Discount_Pct =
                        fround 1 (fmul (merge_left avg_disc (store, sub, sec)) (Fin 100))\<rparr>)
                   price_index))))"

text \<open>
  The target and the competitor rows of a key under a search predicate, their mean unit
  prices, the key of a result row, and the row the builder computes for a key.
\<close>

definition target_rows :: "(string \<Rightarrow> bool) \<Rightarrow> promo_sale list \<Rightarrow> pi_key \<Rightarrow> promo_sale list" where
  "target_rows search df k = filter (\<lambda>r. search (Supplier r) \<and> pi_key r = k) df"

definition comp_rows :: "(string \<Rightarrow> bool) \<Rightarrow> promo_sale list \<Rightarrow> pi_key \<Rightarrow> promo_sale list" where
  "comp_rows search df k = filter (\<lambda>r. \<not> search (Supplier r) \<and> pi_key r = k) df"

definition target_mean :: "(string \<Rightarrow> bool) \<Rightarrow> promo_sale list \<Rightarrow> pi_key \<Rightarrow> pyfloat" where
  "target_mean search df k = nanmean (map Unit_Price (target_rows search df k))"

definition comp_mean :: "(string \<Rightarrow> bool) \<Rightarrow> promo_sale list \<Rightarrow> pi_key \<Rightarrow> pyfloat" where
  "comp_mean search df k = nanmean (map Unit_Price (comp_rows search df k))"

definition out_key :: "price_index_row \<Rightarrow> pi_key" where
  "out_key row = (PI_Store_Name row, PI_Sub_Department row, PI_Section row)"

definition price_index_row_of :: "(string \<Rightarrow> bool) \<Rightarrow> promo_sale list \<Rightarrow> pi_key \<Rightarrow> price_index_row" where
  "price_index_row_of search df k =
     (let t = nanmean (map Unit_Price (target_rows search df k));
          c = nanmean (map Unit_Price (comp_rows search df k))
      in \<lparr>PI_Store_Name = fst k, PI_Sub_Department = fst (snd k), PI_Section = snd (snd k),
          Target_Avg_Price = t, Comp_Avg_Price = c, PI_Price_Index = fround 3 (fdiv t c),
          Avg_RRP = nanmean (map (\<lambda>r. Fin (RRP r)) (target_rows search df k)),
          Avg_Discount_Pct = fround 1 (fmul
            (nanmean (map Discount_Pct (target_rows search df k))) (Fin 100))\<rparr>)"

text \<open>
  Example frames. In \<open>pi_sales\<close> store A has a target row (unit price 95) and a competitor
  row (unit price 100), store B a target row only. In \<open>pi_sales_nan\<close> the competitor row of
  store A has quantity 0 and total sales 0, so its unit price is NaN.
\<close>

definition mk_sale :: "string \<Rightarrow> string \<Rightarrow> real \<Rightarrow> real \<Rightarrow> real \<Rightarrow> sale" where
  "mk_sale store supplier qty tot rrp =
     \<lparr>Store_Name = store, Item_Code = 1, Description = ''OIL'', Category = ''FOODS'',
      Section = ''OILS'', Sub_Department = ''COOKING'', Supplier = supplier,
      Quantity = qty, Total_Sales = tot, RRP = rrp,
      Date_Of_Sale = \<lparr>year = 2025, month = 1, day = 6\<rparr>\<rparr>"

definition pi_sales :: "promo_sale list" where
  "pi_sales = detect_promotions
     [mk_sale ''A'' ''BIDCO AFRICA LIMITED'' 1 95 100,
      mk_sale ''A'' ''RIVAL LTD'' 2 200 100,
      mk_sale ''B'' ''Bidco Africa Limited'' 1 90 100] (1 / 10) 2"

definition pi_sales_nan :: "promo_sale list" where
  "pi_sales_nan = detect_promotions
     [mk_sale ''A'' ''BIDCO AFRICA LIMITED'' 1 95 100,
      mk_sale ''A'' ''RIVAL LTD'' 0 0 100] (1 / 10) 2"

section \<open>Promotion uplift (promo_uplifts.py)\<close>

text \<open>
  \<open>calculate_bidco_promo_uplift\<close> takes the frame with the promotion flag, keeps the rows of
  the supplier \<open>BIDCO AFRICA LIMITED\<close>, sums the on-promotion and the off-promotion
  quantities per section, replaces a zero baseline by NaN and sorts the sections by uplift,
  highest first, NaN last.
\<close>

record section_units_row =
  SU_Section :: string
  SU_Promo_Units :: real
  SU_Baseline_Units :: real
  Promo_Uplift_Pct :: pyfloat

definition replace_zero_nan :: "real \<Rightarrow> pyfloat" where
  "replace_zero_nan x = (if x = 0 then NaN else Fin x)"

definition descending_key :: "pyfloat \<Rightarrow> nat \<times> real" where
  "descending_key x =
     (case x of PInf \<Rightarrow> (0, 0) | Fin a \<Rightarrow> (1, - a) | NInf \<Rightarrow> (2, 0) | NaN \<Rightarrow> (3, 0))"

definition calculate_bidco_promo_uplift :: "promo_sale list \<Rightarrow> section_units_row list" where
  "calculate_bidco_promo_uplift df =
     (let bidco_data = filter (\<lambda>r. Supplier r = ''BIDCO AFRICA LIMITED'') df;
          Promo_Units = (\<lambda>r. if On_Promo r = True then Quantity r else 0);
          Baseline_Units = (\<lambda>r. if On_Promo r = False then Quantity r else 0);
          section_units = map (\<lambda>s.
              (s, sum_list (map Promo_Units (filter (\<lambda>r. Section r = s) bidco_data)),
                  sum_list (map Baseline_Units (filter (\<lambda>r. Section r = s) bidco_data))))
            (sort (remdups (map Section bidco_data)));
          section_units = map (\<lambda>(s, p, b).
              \<lparr>SU_Section = s, SU_Promo_Units = p, SU_Baseline_Units = b,
               Promo_Uplift_Pct = fmul (fdiv (Fin (p - b)) (replace_zero_nan b)) (Fin 100)\<rparr>)
            section_units
      in sort_key (\<lambda>row. descending_key (Promo_Uplift_Pct row)) section_units)"

text \<open>
  The uplift in the words of the specification: mean quantity on promotion over mean
  quantity off promotion, minus 1, times 100, and 0 when the baseline is zero or absent.
\<close>

definition mean :: "real list \<Rightarrow> real" where
  "mean xs = sum_list xs / real (length xs)"

definition promo_uplift_spec :: "real list \<Rightarrow> real list \<Rightarrow> real" where
  "promo_uplift_spec on_promo off_promo =
     (if off_promo = [] \<or> mean off_promo = 0 then 0
      else (mean on_promo / mean off_promo - 1) * 100)"

section \<open>Promotion uplift per store and section (promo_analysis.py)\<close>

text \<open>
  \<open>calculate_bidco_store_section_uplift\<close> keeps the rows of the supplier
  \<open>BIDCO AFRICA LIMITED\<close>, takes the mean quantity of the on-promotion and of the
  off-promotion rows per (store, section), left-merges the baseline onto the promotion
  table (a store and section without off-promotion rows gets the baseline NaN), computes
  the uplift and adds the columns \<open>Type\<close> and \<open>Promo_Uplift_Pct_Fill\<close>, the uplift with NaN
  replaced by 0.
\<close>

record promo_analysis_row =
  PA_Store_Name :: string
  PA_Section :: string
  PA_Promo_Units :: pyfloat
  PA_Baseline_Units :: pyfloat
  PA_Promo_Uplift_Pct :: pyfloat
  PA_Type :: string
  Promo_Uplift_Pct_Fill :: pyfloat

definition fillna0 :: "pyfloat \<Rightarrow> pyfloat" where
  "fillna0 x = (if isna x then Fin 0 else x)"

definition store_section :: "promo_sale \<Rightarrow> string \<times> string" where
  "store_section r = (Store_Name r, Section r)"

definition mean_quantity :: "promo_sale list \<Rightarrow> ((string \<times> string) \<times> pyfloat) list" where
  "mean_quantity rows =
     map (\<lambda>k. (k, nanmean (map (\<lambda>r. Fin (Quantity r)) (filter (\<lambda>r. store_section r = k) rows))))
       (sort (remdups (map store_section rows)))"

definition calculate_bidco_store_section_uplift :: "promo_sale list \<Rightarrow> promo_analysis_row list" where
  "calculate_bidco_store_section_uplift df =
     (let bidco_df = filter (\<lambda>r. Supplier r = ''BIDCO AFRICA LIMITED'') df;
          baseline = mean_quantity (filter (\<lambda>r. On_Promo r = False) bidco_df);
          promo = mean_quantity (filter (\<lambda>r. On_Promo r = True) bidco_df)
      in map (\<lambda>((store, sec), p).
            let b = (case map_of baseline (store, sec) of None \<Rightarrow> NaN | Some v \<Rightarrow> v);
                uplift = fmul (fdiv (fsub p b) b) (Fin 100)
            in \<lparr>PA_Store_Name = store, PA_Section = sec,
                PA_Promo_Units = p, PA_Baseline_Units = b, PA_Promo_Uplift_Pct = uplift,
                PA_Type = (if isna b then ''Emerging Promo'' else ''Reliable Uplift''),
                Promo_Uplift_Pct_Fill = fillna0 uplift\<rparr>)
          promo)"

text \<open>
  The on-promotion and off-promotion quantities of the supplier in a store and section.
\<close>

definition store_on_promo :: "promo_sale list \<Rightarrow> string \<times> string \<Rightarrow> real list" where
  "store_on_promo df k =
     map Quantity (filter (\<lambda>r. Supplier r = ''BIDCO AFRICA LIMITED'' \<and> store_section r = k
                              \<and> On_Promo r) df)"

definition store_off_promo :: "promo_sale list \<Rightarrow> string \<times> string \<Rightarrow> real list" where
  "store_off_promo df k =
     map Quantity (filter (\<lambda>r. Supplier r = ''BIDCO AFRICA LIMITED'' \<and> store_section r = k
                              \<and> \<not> On_Promo r) df)"

definition pa_key :: "promo_analysis_row \<Rightarrow> string \<times> string" where
  "pa_key row = (PA_Store_Name row, PA_Section row)"

text \<open>The row \<open>calculate_bidco_store_section_uplift\<close> computes for a store and section.\<close>

definition pa_row_of :: "promo_sale list \<Rightarrow> string \<times> string \<Rightarrow> promo_analysis_row" where
  "pa_row_of df k =
     (let p = nanmean (map Fin (store_on_promo df k));
          b = nanmean (map Fin (store_off_promo df k));
          uplift = fmul (fdiv (fsub p b) b) (Fin 100)
      in \<lparr>PA_Store_Name = fst k, PA_Section = snd k,
          PA_Promo_Units = p, PA_Baseline_Units = b, PA_Promo_Uplift_Pct = uplift,
          PA_Type = (if isna b then ''Emerging Promo'' else ''Reliable Uplift''),
          Promo_Uplift_Pct_Fill = fillna0 uplift\<rparr>)"

section \<open>KPI dashboard (bidco_kpi_api.py)\<close>

text \<open>
  \<open>start_bidco_kpi_api\<close> reads the columns \<open>Total Sales\<close>, \<open>Quantity\<close>, \<open>RRP\<close>, \<open>On_Promo\<close>
  and \<open>Promo_Units\<close> of \<open>bidco_data\<close>, and (inside \<open>try\<close>) the full table \<open>df_original\<close>,
  whose default \<open>None\<close> makes the block fail and the price index \<open>N/A\<close>. The sums are numpy
  scalars: dividing by zero gives an infinity or NaN and does not raise. \<open>kpi_env\<close> holds
  the variables the handler \<open>kpis_json\<close> closes over.
\<close>

record kpi_sale = promo_sale +
  Promo_Units :: real

record kpi_env =
  total_revenue :: real
  total_units :: real
  avg_discount :: pyfloat
  promo_rate :: pyfloat
  promo_uplift :: real
  price_index_str :: string
  weekly_gain :: real

definition nansum :: "pyfloat list \<Rightarrow> pyfloat" where
  "nansum xs = fold (\<lambda>v acc. fadd acc v) (filter (\<lambda>v. \<not> isna v) xs) (Fin 0)"

definition pad3 :: "nat \<Rightarrow> string" where
  "pad3 n = (if n < 10 then ''00'' @ digits10 n else if n < 100 then ''0'' @ digits10 n else digits10 n)"

definition fmt_3f :: "pyfloat \<Rightarrow> string" where
  "fmt_3f x =
     (case x of
        NaN \<Rightarrow> ''nan'' | PInf \<Rightarrow> ''inf'' | NInf \<Rightarrow> ''-inf''
      | Fin a \<Rightarrow>
          (let k = nat \<bar>rint (a * 1000)\<bar>
           in (if a < 0 then ''-'' else '''') @ digits10 (k div 1000) @ ''.'' @ pad3 (k mod 1000)))"

definition start_bidco_kpi_api :: "kpi_sale list \<Rightarrow> sale list option \<Rightarrow> real \<Rightarrow> kpi_env" where
  "start_bidco_kpi_api bidco_data df_original weekly_gain' =
     (let df = bidco_data;
          total_revenue' = sum_list (map Total_Sales df);
          total_units' = sum_list (map Quantity df);
          avg_rrp = fdiv (Fin (sum_list (map (\<lambda>r. RRP r * Quantity r) df))) (Fin total_units');
          avg_price = fdiv (Fin total_revenue') (Fin total_units');
          avg_discount' = fmul (fsub (Fin 1) (fdiv avg_price avg_rrp)) (Fin 100);
          promo_rate' = fmul (fdiv (Fin (real (length (filter On_Promo df))))
                              (Fin (real (length df)))) (Fin 100);
          promo_uplift' =
            (if sum_list (map Promo_Units df) > 0
             then (sum_list (map Quantity (filter On_Promo df)) / sum_list (map Promo_Units df) - 1) * 100
             else 0);
          price_index_str' =
            (case df_original of
               None \<Rightarrow> ''N/A''
             | Some full_df \<Rightarrow>
                 (let comp_df = filter (\<lambda>r. \<not> str_contains_ci ''BIDCO'' (Supplier r)) full_df;
                      comp_price = fdiv
                        (nansum (map (\<lambda>r. fmul (unit_price r) (Fin (Quantity r))) comp_df))
                        (Fin (sum_list (map Quantity comp_df)));
                      price_index = (if fgt comp_price (Fin 0)
                                     then fround 3 (fdiv avg_price comp_price) else NaN)
                  in fmt_3f price_index))
      in \<lparr>total_revenue = total_revenue', total_units = total_units',
          avg_discount = avg_discount', promo_rate = promo_rate',
          promo_uplift = promo_uplift', price_index_str = price_index_str',
          weekly_gain = weekly_gain'\<rparr>)"

text \<open>
  The handler of \<open>/kpis/json\<close>. \<open>round(x)\<close> without digits converts to an integer and
  raises \<open>ValueError\<close> on NaN and \<open>OverflowError\<close> on an infinity; \<open>int(x)\<close> truncates
  towards zero.
\<close>


definition py_round_int :: "pyfloat \<Rightarrow> py_error + int" where
  "py_round_int x =
     (case x of Fin a \<Rightarrow> Inr (rint a) | NaN \<Rightarrow> Inl ValueError | _ \<Rightarrow> Inl OverflowError)"

record kpis =
  total_revenue_ksh :: int
  units_sold :: int
  avg_discount_pct :: pyfloat
  price_index :: string
  promo_coverage_pct :: int
  promo_uplift_pct :: int
  weekly_gain_ksh :: real
  data_health :: string

definition py_int :: "real \<Rightarrow> int" where
  "py_int x = (if x \<ge> 0 then \<lfloor>x\<rfloor> else \<lceil>x\<rceil>)"

definition kpis_json :: "kpi_env \<Rightarrow> py_error + kpis" where
  "kpis_json env =
     (case py_round_int (promo_rate env) of
        Inl e \<Rightarrow> Inl e
      | Inr coverage \<Rightarrow>
          Inr \<lparr>total_revenue_ksh = rint (total_revenue env),
               units_sold = py_int (total_units env),
               avg_discount_pct = fround 1 (avg_discount env),
               price_index = price_index_str env,
               promo_coverage_pct = coverage,
               promo_uplift_pct = rint (promo_uplift env),
               weekly_gain_ksh = weekly_gain env,
               data_health = ''99/100''\<rparr>)"

text \<open>
  Example frame: in section OILS one on-promotion record of 10 units and two off-promotion
  records of 5 units; in section SOAPS one on-promotion record and no baseline.
\<close>

definition mk_promo_sale :: "string \<Rightarrow> string \<Rightarrow> real \<Rightarrow> bool \<Rightarrow> promo_sale" where
  "mk_promo_sale supplier sec qty promo =
     \<lparr>Store_Name = ''A'', Item_Code = 1, Description = ''OIL'', Category = ''FOODS'',
      Section = sec, Sub_Department = ''COOKING'', Supplier = supplier,
      Quantity = qty, Total_Sales = 90 * qty, RRP = 100,
      Date_Of_Sale = \<lparr>year = 2025, month = 1, day = 6\<rparr>,
      Unit_Price = Fin 90, Discount_Pct = Fin (1 / 10), Year_Week = ''2025-01'',
      On_Promo = promo, Day_of_Week = ''Monday''\<rparr>"

definition uplift_sales :: "promo_sale list" where
  "uplift_sales =
     [mk_promo_sale ''BIDCO AFRICA LIMITED'' ''OILS'' 10 True,
      mk_promo_sale ''BIDCO AFRICA LIMITED'' ''OILS'' 5 False,
      mk_promo_sale ''BIDCO AFRICA LIMITED'' ''OILS'' 5 False,
      mk_promo_sale ''BIDCO AFRICA LIMITED'' ''SOAPS'' 4 True]"

text \<open>
  The on-promotion and off-promotion quantities of the supplier in a section, and the row
  \<open>calculate_bidco_promo_uplift\<close> computes for a section.
\<close>

definition on_promo_quantities :: "promo_sale list \<Rightarrow> string \<Rightarrow> real list" where
  "on_promo_quantities df s =
     map Quantity (filter (\<lambda>r. Supplier r = ''BIDCO AFRICA LIMITED'' \<and> Section r = s \<and> On_Promo r) df)"

definition off_promo_quantities :: "promo_sale list \<Rightarrow> string \<Rightarrow> real list" where
  "off_promo_quantities df s =
     map Quantity (filter (\<lambda>r. Supplier r = ''BIDCO AFRICA LIMITED'' \<and> Section r = s \<and> \<not> On_Promo r) df)"

definition section_units_row_of :: "promo_sale list \<Rightarrow> string \<Rightarrow> section_units_row" where
  "section_units_row_of df s =
     \<lparr>SU_Section = s,
      SU_Promo_Units = sum_list (on_promo_quantities df s),
      SU_Baseline_Units = sum_list (off_promo_quantities df s),
      Promo_Uplift_Pct =
        fmul (fdiv (Fin (sum_list (on_promo_quantities df s) - sum_list (off_promo_quantities df s)))
                (replace_zero_nan (sum_list (off_promo_quantities df s)))) (Fin 100)\<rparr>"

definition kpi_sales :: "kpi_sale list" where
  "kpi_sales =
     map (\<lambda>r. promo_sale.extend r \<lparr>Promo_Units = (if On_Promo r then Quantity r else 0)\<rparr>)
       uplift_sales"

section \<open>Data health pipeline (data_quality.py)\<close>

text \<open>
  The health pipeline runs on the table as loaded: any cell may be missing (\<open>None\<close>). It
  counts the missing cells of a row over all columns, and \<open>len(df.columns)\<close> is the number
  of columns of the input table.
\<close>

record raw_sale =
  Store_Name_cell :: "string option"
  Item_Code_cell :: "int option"
  Description_cell :: "string option"
  Category_cell :: "string option"
  Section_cell :: "string option"
  Sub_Department_cell :: "string option"
  Supplier_cell :: "string option"
  Quantity_cell :: "real option"
  Total_Sales_cell :: "real option"
  RRP_cell :: "real option"
  Date_Of_Sale_cell :: "date option"

definition missing_cells :: "raw_sale \<Rightarrow> nat" where
  "missing_cells r =
     length (filter id
       [Store_Name_cell r = None, Item_Code_cell r = None, Description_cell r = None,
        Category_cell r = None, Section_cell r = None, Sub_Department_cell r = None,
        Supplier_cell r = None, Quantity_cell r = None, Total_Sales_cell r = None,
        RRP_cell r = None, Date_Of_Sale_cell r = None])"

definition len_columns :: nat where
  "len_columns = 11"

text \<open>
  \<open>groupby('Store Name')\<close> drops the rows without a store name and sorts the stores.
  \<open>outliers_df\<close> is \<open>price_df.groupby('Item_Code', group_keys=False).apply(detect_outliers)\<close>:
  the rows with an RRP and an item code, each with the flag of its item's group. When no
  row has both there is no group, \<open>detect_outliers\<close> is never called and the result has no
  column \<open>Outlier\<close> (\<open>None\<close>); the aggregation of that column, the next statement of the
  pipeline, then raises \<open>KeyError\<close>.
\<close>

definition store_names :: "raw_sale list \<Rightarrow> string list" where
  "store_names rows = sort (remdups (List.map_filter Store_Name_cell rows))"

definition store_rows :: "raw_sale list \<Rightarrow> string \<Rightarrow> raw_sale list" where
  "store_rows rows s = filter (\<lambda>r. Store_Name_cell r = Some s) rows"

definition outliers_df :: "raw_sale list \<Rightarrow> (raw_sale \<times> bool) list option" where
  "outliers_df df =
     (let price_df = filter (\<lambda>r. RRP_cell r \<noteq> None) df;
          items = sort (remdups (List.map_filter Item_Code_cell price_df))
      in if items = [] then None
         else Some (concat (map
           (\<lambda>item. let g = filter (\<lambda>r. Item_Code_cell r = Some item) price_df
                    in zip g (detect_outliers (List.map_filter RRP_cell g)))
           items)))"

text \<open>
  \<open>Unreliable_Store\<close> of \<open>store_outlier_stats\<close>: the store's outlier rate over its rows of
  \<open>outliers_df\<close>, rounded to 2 decimals, is above 10; a store without such rows is not
  unreliable (\<open>fillna\<close>).
\<close>

definition store_unreliable :: "(raw_sale \<times> bool) list \<Rightarrow> string \<Rightarrow> bool" where
  "store_unreliable odf s =
     (let g = filter (\<lambda>(r, out). Store_Name_cell r = Some s) odf;
          total_products = length (filter (\<lambda>(r, out). Item_Code_cell r \<noteq> None) g);
          outlier_count' = length (filter snd g);
          outlier_rate = fround 2 (fmul
            (fdiv (Fin (real outlier_count'))
                  (Fin (real (if total_products = 0 then 1 else total_products)))) (Fin 100))
      in if g = [] then False else fgt outlier_rate (Fin 10))"

text \<open>
  A row of \<open>store_health\<close> with all its columns, and the row of a store: the counts, the
  percentages and the score \<open>compute_health_score\<close> gives the row.
\<close>

record store_stats = store_health_row +
  SH_Store_Name :: string
  total_rows :: nat
  negative_rows :: nat
  missing_rrp :: nat
  outlier_count :: nat
  Data_Health_Score :: pyfloat

definition pct :: "nat \<Rightarrow> nat \<Rightarrow> pyfloat" where
  "pct k n = fmul (fdiv (Fin (real k)) (Fin (real n))) (Fin 100)"

definition store_health_of ::
    "raw_sale list \<Rightarrow> (raw_sale \<times> bool) list \<Rightarrow> string \<Rightarrow> store_stats" where
  "store_health_of df odf s =
     (let g = store_rows df s;
          total_rows' = length (filter (\<lambda>r. Item_Code_cell r \<noteq> None) g);
          negative_rows' = length (filter
            (\<lambda>r. case Quantity_cell r of None \<Rightarrow> False | Some q \<Rightarrow> q < 0) g);
          missing_rrp' = length (filter (\<lambda>r. RRP_cell r = None) g);
          outlier_count' = length (filter (\<lambda>(r, out). Store_Name_cell r = Some s \<and> out) odf);
          total_missing_cells = sum_list (map missing_cells g);
          total_possible_cells = length g * len_columns;
          row = \<lparr>pct_negative = pct negative_rows' total_rows',
                 pct_missing_rrp = pct missing_rrp' total_rows',
                 pct_outliers = pct outlier_count' total_rows',
                 pct_missing_all_cols = fround 2 (pct total_missing_cells total_possible_cells),
                 Unreliable_Store = store_unreliable odf s,
                 SH_Store_Name = s, total_rows = total_rows', negative_rows = negative_rows',
                 missing_rrp = missing_rrp', outlier_count = outlier_count',
                 Data_Health_Score = NaN\<rparr>
      in row\<lparr>Data_Health_Score := compute_health_score row\<rparr>)"

text \<open>
  The table \<open>store_health\<close> of \<open>data_health_pipeline\<close>, or the error the pipeline raises
  before it has the table: on an empty input \<open>len(duplicates) / len(df)\<close> divides the
  integer 0 by 0 (\<open>ZeroDivisionError\<close>), and without a column \<open>Outlier\<close> the aggregation of
  \<open>store_outlier_stats\<close> raises \<open>KeyError\<close>.
\<close>

definition store_health :: "raw_sale list \<Rightarrow> py_error + store_stats list" where
  "store_health df =
     (if df = [] then Inl ZeroDivisionError
      else case outliers_df df of
             None \<Rightarrow> Inl KeyError
           | Some odf \<Rightarrow> Inr (map (store_health_of df odf) (store_names df)))"

text \<open>
  The overall score: \<open>(Data_Health_Score * total_rows).sum() / total_rows.sum()\<close>, rounded
  to one decimal; \<open>sum\<close> skips NaN.
\<close>

definition weighted_score :: "store_stats list \<Rightarrow> pyfloat" where
  "weighted_score sh =
     fround 1 (fdiv
       (nansum (map (\<lambda>row. fmul (Data_Health_Score row) (Fin (real (total_rows row)))) sh))
       (Fin (real (sum_list (map total_rows sh)))))"

definition overall_score :: "raw_sale list \<Rightarrow> py_error + pyfloat" where
  "overall_score df =
     (case store_health df of Inl e \<Rightarrow> Inl e | Inr sh \<Rightarrow> Inr (weighted_score sh))"

text \<open>
  The overall score in the words of the specification: the mean of the store scores,
  each weighted by the store's total quantity of units.
\<close>

definition store_quantity :: "raw_sale list \<Rightarrow> string \<Rightarrow> real" where
  "store_quantity df s = sum_list (List.map_filter Quantity_cell (store_rows df s))"

definition overall_score_spec :: "raw_sale list \<Rightarrow> store_stats list \<Rightarrow> pyfloat" where
  "overall_score_spec df sh =
     fdiv (nansum (map (\<lambda>row. fmul (Data_Health_Score row)
                                 (Fin (store_quantity df (SH_Store_Name row)))) sh))
          (Fin (sum_list (map (\<lambda>row. store_quantity df (SH_Store_Name row)) sh)))"

text \<open>
  Example table: store A has one record of 1 unit with a missing RRP, store B two clean
  records of 3 and 4 units.
\<close>

definition mk_raw :: "string \<Rightarrow> int \<Rightarrow> real \<Rightarrow> real option \<Rightarrow> raw_sale" where
  "mk_raw store item qty rrp =
     \<lparr>Store_Name_cell = Some store, Item_Code_cell = Some item, Description_cell = Some ''OIL'',
      Category_cell = Some ''FOODS'', Section_cell = Some ''OILS'',
      Sub_Department_cell = Some ''COOKING'', Supplier_cell = Some ''BIDCO AFRICA LIMITED'',
      Quantity_cell = Some qty, Total_Sales_cell = Some (90 * qty), RRP_cell = rrp,
      Date_Of_Sale_cell = Some \<lparr>year = 2025, month = 1, day = 6\<rparr>\<rparr>"

definition health_sales :: "raw_sale list" where
  "health_sales =
     [mk_raw ''A'' 1 1 None, mk_raw ''B'' 1 3 (Some 100), mk_raw ''B'' 2 4 (Some 100)]"

text \<open>The table of stores the pipeline computes for \<open>health_sales\<close>.\<close>

definition health_table :: "store_stats list" where
  "health_table =
    [\<lparr>pct_negative = Fin 0, pct_missing_rrp = Fin 100, pct_outliers = Fin 0,
      pct_missing_all_cols = Fin (909 / 100), Unreliable_Store = False,
      SH_Store_Name = ''A'', total_rows = 1, negative_rows = 0,
      missing_rrp = 1, outlier_count = 0, Data_Health_Score = Fin (827 / 10)\<rparr>,
     \<lparr>pct_negative = Fin 0, pct_missing_rrp = Fin 0, pct_outliers = Fin 0,
      pct_missing_all_cols = Fin 0, Unreliable_Store = False,
      SH_Store_Name = ''B'', total_rows = 2, negative_rows = 0,
      missing_rrp = 0, outlier_count = 0, Data_Health_Score = Fin 100\<rparr>]"

text \<open>The same stores without any RRP.\<close>

definition health_sales_no_rrp :: "raw_sale list" where
  "health_sales_no_rrp = [mk_raw ''A'' 1 1 None, mk_raw ''B'' 1 3 None]"

text \<open>The number a finite float stands for.\<close>

fun fin_value :: "pyfloat \<Rightarrow> real" where
  "fin_value (Fin a) = a"
| "fin_value _ = 0"

section \<open>Properties: rounding\<close>

lemma rint_ge_floor: "\<lfloor>x\<rfloor> \<le> rint x"
  by (simp add: rint_def Let_def)

lemma rint_le_floor1: "rint x \<le> \<lfloor>x\<rfloor> + 1"
  by (simp add: rint_def Let_def)

lemma rint_mono: 
  assumes "x \<le> y" shows "rint x \<le> rint y"
proof (cases "\<lfloor>x\<rfloor> = \<lfloor>y\<rfloor>")
  case True
  with assms have "x - of_int \<lfloor>x\<rfloor> \<le> y - of_int \<lfloor>y\<rfloor>" by simp
  with True show ?thesis
    by (auto simp: rint_def Let_def)
next
  case False
  with assms have "\<lfloor>x\<rfloor> + 1 \<le> \<lfloor>y\<rfloor>"
    using floor_mono [of x y] by linarith
  with rint_le_floor1 [of x] rint_ge_floor [of y] show ?thesis by linarith
qed

lemma rint_of_int: "rint (of_int k) = k"
  by (simp add: rint_def)

lemma round_dp_mono: "x \<le> y \<Longrightarrow> round_dp n x \<le> round_dp n y"
  unfolding round_dp_def
  by (intro divide_right_mono rint_mono mult_right_mono) (simp_all add: rint_mono)

lemma round_dp_of_int: "round_dp n (of_int k) = of_int k"
proof -
  have "(of_int k :: real) * 10 ^ n = of_int (k * 10 ^ n)" by simp
  then have "rint (of_int k * 10 ^ n) = k * 10 ^ n"
    using rint_of_int by metis
  then show ?thesis by (simp add: round_dp_def)
qed

lemma round_dp_100: "round_dp n 100 = 100"
  using round_dp_of_int [of n 100] by simp

lemma round_dp_nonneg: "0 \<le> x \<Longrightarrow> 0 \<le> round_dp n x"
  using round_dp_mono [of 0 x n] round_dp_of_int [of n 0] by simp


lemma rint_close: "\<bar>of_int (rint y) - y\<bar> \<le> 1 / 2"
proof -
  have "of_int \<lfloor>y\<rfloor> \<le> y" "y < of_int \<lfloor>y\<rfloor> + 1" by linarith+
  then show ?thesis
    unfolding rint_def Let_def by (simp add: abs_if) linarith
qed

lemma round_dp_close: "\<bar>round_dp n x - x\<bar> \<le> 1 / (2 * 10 ^ n)"
proof -
  have "round_dp n x - x = (of_int (rint (x * 10 ^ n)) - x * 10 ^ n) / 10 ^ n"
    by (simp add: round_dp_def field_simps)
  then have "\<bar>round_dp n x - x\<bar> = \<bar>of_int (rint (x * 10 ^ n)) - x * 10 ^ n\<bar> / 10 ^ n"
    by (simp add: abs_divide)
  also have "\<dots> \<le> (1 / 2) / 10 ^ n"
    by (intro divide_right_mono rint_close) simp
  finally show ?thesis by simp
qed


section \<open>Properties: data health score\<close>

lemma compute_health_score_range:
  assumes "pct_negative row = Fin a" "0 \<le> a"
      and "pct_missing_rrp row = Fin b" "0 \<le> b"
      and "pct_outliers row = Fin c" "0 \<le> c"
      and "pct_missing_all_cols row = Fin d" "0 \<le> d"
  shows "\<exists>s. compute_health_score row = Fin s \<and> 0 \<le> s \<and> s \<le> 100
     \<and> (a = 0 \<and> b = 0 \<and> c = 0 \<and> d = 0 \<and> \<not> Unreliable_Store row \<longrightarrow> s = 100)"
proof -
  define t where "t = 100 - a * (20 / 100) - b * (15 / 100) - c * (30 / 100) - d * (25 / 100)
      - (if Unreliable_Store row then 10 else 0)"
  have t100: "t \<le> 100" using assms by (simp add: t_def)
  have r100: "round_dp 1 t \<le> 100"
    using round_dp_mono [OF t100, of 1] by (simp add: round_dp_100)
  have eq: "compute_health_score row = py_max (Fin (round_dp 1 t)) (Fin 0)"
    using assms by (simp add: compute_health_score_def fsub_def t_def)
  have z: "a = 0 \<and> b = 0 \<and> c = 0 \<and> d = 0 \<and> \<not> Unreliable_Store row \<Longrightarrow> round_dp 1 t = 100"
    using round_dp_100 [of 1] by (simp add: t_def)
  show ?thesis
  proof (cases "round_dp 1 t < 0")
    case True
    then have "compute_health_score row = Fin 0"
      by (simp add: eq py_max_def fgt_def)
    moreover from True z have "\<not> (a = 0 \<and> b = 0 \<and> c = 0 \<and> d = 0 \<and> \<not> Unreliable_Store row)"
      by auto
    ultimately show ?thesis by auto
  next
    case False
    then have "compute_health_score row = Fin (round_dp 1 t)"
      by (simp add: eq py_max_def fgt_def)
    with False r100 z show ?thesis by auto
  qed
qed

section \<open>Properties: action recommender\<close>

lemma fmt_thousands_27618: "fmt_thousands 27618 = ''27,618''"
  by (simp add: fmt_thousands_def digits10.simps digit_char_def)

text \<open>
  C2. With a defined price index the recommender takes the first matching branch of:
  index < 0.98 and discount > 10 (raise to the 9% target: raise the price and cut the
  discount); index < 0.98 (raise the price); index > 1.05 and discount > 10 (cut the
  discount); discount > 12 (reduce to the 9% target discount); discount < 5 and
  index > 1.02 (keep); otherwise balanced (monitor). With an undefined price index it
  decides on the discount alone: above 12 (reduce to 9% off), below 5 (keep, protect the
  margin), otherwise balanced (monitor). Each branch gives the status and the action text
  below, the weekly gain written with a comma between groups of three digits.
\<close>

theorem get_action_precedence:
  fixes row :: action_row
  defines "idx \<equiv> Price_Index row" and "disc \<equiv> Current_Discount row"
  defines "gain \<equiv> arrow @ '' +KSh '' @ fmt_thousands (Weekly_Gain_KSh row) @ ''/week''"
  shows "(\<not> isna idx \<longrightarrow>
      (fless idx (Fin (98 / 100)) \<and> fgt disc (Fin 10)
          \<longrightarrow> get_action row = (''Too cheap + deep'', ''Raise to 9% off '' @ gain)) \<and>
      (fless idx (Fin (98 / 100)) \<and> \<not> fgt disc (Fin 10)
          \<longrightarrow> get_action row = (''Too cheap'', ''Raise price '' @ gain)) \<and>
      (\<not> fless idx (Fin (98 / 100)) \<and> fgt idx (Fin (105 / 100)) \<and> fgt disc (Fin 10)
          \<longrightarrow> get_action row = (''Too expensive + deep'', ''Cut discount '' @ gain)) \<and>
      (\<not> fless idx (Fin (98 / 100)) \<and> \<not> (fgt idx (Fin (105 / 100)) \<and> fgt disc (Fin 10))
          \<and> fgt disc (Fin 12)
          \<longrightarrow> get_action row = (''Too discounted'', ''Reduce to 9% '' @ gain)) \<and>
      (\<not> fless idx (Fin (98 / 100)) \<and> \<not> (fgt idx (Fin (105 / 100)) \<and> fgt disc (Fin 10))
          \<and> \<not> fgt disc (Fin 12) \<and> fless disc (Fin 5) \<and> fgt idx (Fin (102 / 100))
          \<longrightarrow> get_action row = (''Premium gold'', ''Keep '' @ emdash @ '' winning'')) \<and>
      (\<not> fless idx (Fin (98 / 100)) \<and> \<not> (fgt idx (Fin (105 / 100)) \<and> fgt disc (Fin 10))
          \<and> \<not> fgt disc (Fin 12) \<and> \<not> (fless disc (Fin 5) \<and> fgt idx (Fin (102 / 100)))
          \<longrightarrow> get_action row = (''Balanced'', ''Monitor'')))
    \<and> (isna idx \<longrightarrow>
      (fgt disc (Fin 12)
          \<longrightarrow> get_action row = (''Too discounted'', ''Reduce to 9% off '' @ gain)) \<and>
      (\<not> fgt disc (Fin 12) \<and> fless disc (Fin 5)
          \<longrightarrow> get_action row = (''Premium'', ''Keep '' @ emdash @ '' protect margin'')) \<and>
      (\<not> fgt disc (Fin 12) \<and> \<not> fless disc (Fin 5)
          \<longrightarrow> get_action row = (''Balanced'', ''Monitor'')))"
  unfolding gain_def idx_def disc_def get_action_def Let_def
  by simp

theorem get_action_precedence_witness:
  "get_action \<lparr>Price_Index = Fin (95 / 100), Current_Discount = Fin 12,
      Weekly_Gain_KSh = 27618\<rparr>
     = (''Too cheap + deep'', ''Raise to 9% off '' @ arrow @ '' +KSh 27,618/week'')
   \<and> get_action \<lparr>Price_Index = Fin (106 / 100), Current_Discount = Fin 11,
      Weekly_Gain_KSh = 27618\<rparr>
     = (''Too expensive + deep'', ''Cut discount '' @ arrow @ '' +KSh 27,618/week'')
   \<and> get_action \<lparr>Price_Index = NaN, Current_Discount = Fin 3, Weekly_Gain_KSh = 0\<rparr>
     = (''Premium'', ''Keep '' @ emdash @ '' protect margin'')"
  using get_action_precedence [of "\<lparr>Price_Index = Fin (95 / 100), Current_Discount = Fin 12,
      Weekly_Gain_KSh = 27618\<rparr>"]
    get_action_precedence [of "\<lparr>Price_Index = Fin (106 / 100), Current_Discount = Fin 11,
      Weekly_Gain_KSh = 27618\<rparr>"]
    get_action_precedence [of "\<lparr>Price_Index = NaN, Current_Discount = Fin 3,
      Weekly_Gain_KSh = 0\<rparr>"]
  by (simp add: isna_def fgt_def fmt_thousands_27618)

section \<open>Properties: promotion detector\<close>

lemma length_detect_promotions: "length (detect_promotions df t m) = length df"
  by (simp add: detect_promotions_def)

lemma detect_promotions_nth:
  assumes "i < length df"
  shows "Unit_Price (detect_promotions df t m ! i) = unit_price (df ! i)"
    and "Discount_Pct (detect_promotions df t m ! i) = discount_pct (df ! i)"
    and "Year_Week (detect_promotions df t m ! i) = year_week (Date_Of_Sale (df ! i))"
    and "On_Promo (detect_promotions df t m ! i) = (m \<le> int (promo_days df t (df ! i)))"
    and "sale.truncate (detect_promotions df t m ! i) = df ! i"
  using assms by (simp_all add: detect_promotions_def sale.extend_def sale.truncate_def)

lemma promo_days_card:
  "promo_days df t r =
     card {j. j < length df \<and> Item_Code (df ! j) = Item_Code r
            \<and> Description (df ! j) = Description r
            \<and> year_week (Date_Of_Sale (df ! j)) = year_week (Date_Of_Sale r)
            \<and> fge (discount_pct (df ! j)) (Fin t)}"
  by (simp add: promo_days_def length_filter_conv_card promo_key_def is_promo_day_def conj_ac)

text \<open>
  What the detector computes. Every record gets unit price = total sales / quantity and
  discount percentage = (RRP - unit price) / RRP. The groups are per (item code,
  description, year-week), across all stores, and a record has \<open>On_Promo\<close> true exactly when
  the number of records of its group whose discount percentage is at least
  \<open>discount_threshold\<close> is at least \<open>min_days\<close>: the sum of \<open>Is_Promo_Day\<close> counts records,
  not days.
\<close>

theorem detect_promotions_groups:
  fixes df :: "sale list" and discount_threshold :: real and min_days :: int
  assumes "i < length df"
  defines "out \<equiv> detect_promotions df discount_threshold min_days"
  shows "Unit_Price (out ! i) = fdiv (Fin (Total_Sales (df ! i))) (Fin (Quantity (df ! i)))
    \<and> Discount_Pct (out ! i)
        = fdiv (fsub (Fin (RRP (df ! i))) (Unit_Price (out ! i))) (Fin (RRP (df ! i)))
    \<and> On_Promo (out ! i)
        = (min_days \<le> int (card {j. j < length df
              \<and> Item_Code (df ! j) = Item_Code (df ! i)
              \<and> Description (df ! j) = Description (df ! i)
              \<and> Year_Week (out ! j) = Year_Week (out ! i)
              \<and> fge (Discount_Pct (out ! j)) (Fin discount_threshold)}))"
proof -
  have "{j. j < length df \<and> Item_Code (df ! j) = Item_Code (df ! i)
            \<and> Description (df ! j) = Description (df ! i)
            \<and> Year_Week (out ! j) = Year_Week (out ! i)
            \<and> fge (Discount_Pct (out ! j)) (Fin discount_threshold)}
      = {j. j < length df \<and> Item_Code (df ! j) = Item_Code (df ! i)
            \<and> Description (df ! j) = Description (df ! i)
            \<and> year_week (Date_Of_Sale (df ! j)) = year_week (Date_Of_Sale (df ! i))
            \<and> fge (discount_pct (df ! j)) (Fin discount_threshold)}"
    using assms(1) by (auto simp: out_def detect_promotions_nth)
  then show ?thesis
    using assms(1)
    by (simp add: out_def detect_promotions_nth promo_days_card unit_price_def discount_pct_def)
qed

theorem detect_promotions_groups_witness:
  "Unit_Price (detect_promotions sales2 (1 / 10) 2 ! 0) = Fin 80
   \<and> Discount_Pct (detect_promotions sales2 (1 / 10) 2 ! 0) = Fin (1 / 5)
   \<and> On_Promo (detect_promotions sales2 (1 / 10) 2 ! 0)
        = (2 \<le> int (card {j. j < length sales2
              \<and> Item_Code (sales2 ! j) = Item_Code (sales2 ! 0)
              \<and> Description (sales2 ! j) = Description (sales2 ! 0)
              \<and> Year_Week (detect_promotions sales2 (1 / 10) 2 ! j)
                  = Year_Week (detect_promotions sales2 (1 / 10) 2 ! 0)
              \<and> fge (Discount_Pct (detect_promotions sales2 (1 / 10) 2 ! j)) (Fin (1 / 10))}))"
proof -
  have h: "0 < length sales2" by (simp add: sales2_def)
  have v: "Total_Sales (sales2 ! 0) = 80" "Quantity (sales2 ! 0) = 1" "RRP (sales2 ! 0) = 100"
    by (simp_all add: sales2_def)
  show ?thesis
    using detect_promotions_groups [OF h, of "1 / 10" 2]
    by (simp add: v fsub_def)
qed

text \<open>
  C1. The claim counts the discounted days of a record's (item, store, week) and flags the
  record when there are at least \<open>min_days\<close> of them. The detector does not: in \<open>sales2\<close> one
  item is discounted on a single day, in two stores. Each (item, store, week) has one
  discounted day, and the item has one discounted day in the week over all stores, yet with
  \<open>min_days = 2\<close> the detector flags both records, because it counts the two discounted
  records of the day as two promotion days.
\<close>

theorem detect_promotions_two_stores:
  "map On_Promo (detect_promotions sales2 (1 / 10) 2) = [True, True]
   \<and> map (promo_days sales2 (1 / 10)) sales2 = [2, 2]
   \<and> map (promo_days_spec sales2 (1 / 10)) sales2 = [1, 1]
   \<and> map (promo_days_doc sales2 (1 / 10)) sales2 = [1, 1]"
  by (simp add: detect_promotions_def promo_days_def promo_days_spec_def promo_days_doc_def
      sales2_def promo_key_def is_promo_day_def discount_pct_def unit_price_def fsub_def fge_def
      sale.extend_def)

text \<open>
  C9. For a fixed discount threshold the promotion flag is monotone in \<open>min_days\<close>: a record
  flagged under \<open>min_days\<close> is flagged under every smaller \<open>min_days'\<close>.
\<close>

theorem detect_promotions_mono_min_days:
  assumes "i < length df" and "min_days' \<le> min_days"
    and "On_Promo (detect_promotions df discount_threshold min_days ! i)"
  shows "On_Promo (detect_promotions df discount_threshold min_days' ! i)"
  using assms by (simp add: detect_promotions_nth)

theorem detect_promotions_mono_min_days_witness:
  "On_Promo (detect_promotions sales2 (1 / 10) 1 ! 0)"
proof -
  have h: "0 < length sales2" by (simp add: sales2_def)
  have p: "On_Promo (detect_promotions sales2 (1 / 10) 2 ! 0)"
    by (simp add: detect_promotions_def promo_days_def sales2_def promo_key_def
      is_promo_day_def discount_pct_def unit_price_def fsub_def fge_def sale.extend_def)
  show ?thesis
    using detect_promotions_mono_min_days [OF h _ p, of 1] by simp
qed

section \<open>Properties: outlier classifier\<close>

lemma interp_lower:
  assumes "sorted s" "0 \<le> h"
  shows "s ! nat \<lfloor>h\<rfloor> \<le> interp s h"
proof -
  let ?i = "nat \<lfloor>h\<rfloor>"
  have f0: "0 \<le> h - real ?i" using assms(2) by linarith
  show ?thesis
  proof (cases "?i + 1 < length s")
    case True
    then have "s ! ?i \<le> s ! (?i + 1)"
      using assms(1) by (simp add: sorted_nth_mono)
    then have "0 \<le> (h - real ?i) * (s ! (?i + 1) - s ! ?i)"
      using f0 by simp
    with True show ?thesis by (simp add: interp_def Let_def)
  next
    case False
    then show ?thesis by (simp add: interp_def Let_def)
  qed
qed

lemma interp_upper:
  assumes "sorted s" "0 \<le> h" "nat \<lfloor>h\<rfloor> + 1 < length s"
  shows "interp s h \<le> s ! (nat \<lfloor>h\<rfloor> + 1)"
proof -
  let ?i = "nat \<lfloor>h\<rfloor>"
  have f1: "h - real ?i \<le> 1" using assms(2) by linarith
  have d: "0 \<le> s ! (?i + 1) - s ! ?i"
    using assms(1,3) by (simp add: sorted_nth_mono)
  have "(h - real ?i) * (s ! (?i + 1) - s ! ?i) \<le> 1 * (s ! (?i + 1) - s ! ?i)"
    using f1 d by (rule mult_right_mono)
  with assms(3) show ?thesis by (simp add: interp_def Let_def)
qed

lemma interp_mono:
  assumes "sorted s" "0 \<le> h" "h \<le> h'" "nat \<lfloor>h'\<rfloor> < length s"
  shows "interp s h \<le> interp s h'"
proof (cases "nat \<lfloor>h\<rfloor> = nat \<lfloor>h'\<rfloor>")
  case True
  let ?i = "nat \<lfloor>h\<rfloor>"
  show ?thesis
  proof (cases "?i + 1 < length s")
    case T: True
    have d: "0 \<le> s ! (?i + 1) - s ! ?i"
      using assms(1) T by (simp add: sorted_nth_mono)
    have "h - real ?i \<le> h' - real ?i" using assms(3) by simp
    then have "(h - real ?i) * (s ! (?i + 1) - s ! ?i) \<le> (h' - real ?i) * (s ! (?i + 1) - s ! ?i)"
      using d by (rule mult_right_mono)
    with T True show ?thesis by (simp add: interp_def Let_def)
  next
    case False
    with True show ?thesis by (simp add: interp_def Let_def)
  qed
next
  case False
  have "\<lfloor>h\<rfloor> \<le> \<lfloor>h'\<rfloor>" using assms(3) by (rule floor_mono)
  with False have lt: "nat \<lfloor>h\<rfloor> + 1 \<le> nat \<lfloor>h'\<rfloor>" by linarith
  with assms(4) have lt': "nat \<lfloor>h\<rfloor> + 1 < length s" by simp
  have "interp s h \<le> s ! (nat \<lfloor>h\<rfloor> + 1)"
    by (rule interp_upper [OF assms(1,2) lt'])
  also have "\<dots> \<le> s ! nat \<lfloor>h'\<rfloor>"
    by (rule sorted_nth_mono [OF assms(1) lt assms(4)])
  also have "\<dots> \<le> interp s h'"
    using assms(2,3) by (intro interp_lower [OF assms(1)]) simp
  finally show ?thesis .
qed

lemma quantile_Fin: "xs \<noteq> [] \<Longrightarrow> quantile xs q = Fin (interp (sort xs) (real (length xs - 1) * q))"
  by (simp add: quantile_def)

lemma quartiles_ordered:
  assumes "xs \<noteq> []"
  shows "interp (sort xs) (real (length xs - 1) * (25 / 100))
       \<le> interp (sort xs) (real (length xs - 1) * (75 / 100))"
proof (rule interp_mono)
  show "sorted (sort xs)" by simp
  show "0 \<le> real (length xs - 1) * (25 / 100)" by simp
  show "real (length xs - 1) * (25 / 100) \<le> real (length xs - 1) * (75 / 100)" by simp
  have "real (length xs - 1) * (75 / 100) \<le> real (length xs - 1)" by simp
  then have "\<lfloor>real (length xs - 1) * (75 / 100)\<rfloor> \<le> \<lfloor>real (length xs - 1)\<rfloor>"
    by (rule floor_mono)
  then have "nat \<lfloor>real (length xs - 1) * (75 / 100)\<rfloor> \<le> length xs - 1" by simp
  with assms show "nat \<lfloor>real (length xs - 1) * (75 / 100)\<rfloor> < length (sort xs)"
    by (cases xs) simp_all
qed

lemma iqr_bounds_Fin:
  assumes "xs \<noteq> []"
  defines "q1 \<equiv> interp (sort xs) (real (length xs - 1) * (25 / 100))"
      and "q3 \<equiv> interp (sort xs) (real (length xs - 1) * (75 / 100))"
  shows "iqr_bounds xs = (Fin (q1 - 15 / 10 * (q3 - q1)), Fin (q3 + 15 / 10 * (q3 - q1)))"
  using assms(1) by (simp add: iqr_bounds_def quantile_Fin fsub_def q1_def q3_def Let_def)

text \<open>
  C4. For a group of at least four values the quartiles are finite, the bounds are
  \<open>lower = Q1 - 1.5 * IQR\<close> and \<open>upper = Q3 + 1.5 * IQR\<close> with
  \<open>lower \<le> Q1 \<le> Q3 \<le> upper\<close>, every value strictly outside [lower, upper] is flagged
  by both classifiers and every value inside is not.
\<close>

theorem outlier_bounds:
  assumes "4 \<le> length g"
  shows "\<exists>q1 q3 lower upper.
      quantile g (25 / 100) = Fin q1 \<and> quantile g (75 / 100) = Fin q3
    \<and> iqr_bounds g = (Fin lower, Fin upper)
    \<and> lower = q1 - 15 / 10 * (q3 - q1) \<and> upper = q3 + 15 / 10 * (q3 - q1)
    \<and> lower \<le> q1 \<and> q1 \<le> q3 \<and> q3 \<le> upper
    \<and> (\<forall>i < length g.
          (g ! i < lower \<or> upper < g ! i \<longrightarrow>
             detect_supplier_outliers g ! i \<and> detect_outliers g ! i)
        \<and> (lower \<le> g ! i \<and> g ! i \<le> upper \<longrightarrow>
             \<not> detect_supplier_outliers g ! i \<and> \<not> detect_outliers g ! i))"
proof -
  from assms have ne: "g \<noteq> []" by auto
  define q1 where "q1 = interp (sort g) (real (length g - 1) * (25 / 100))"
  define q3 where "q3 = interp (sort g) (real (length g - 1) * (75 / 100))"
  have le: "q1 \<le> q3" unfolding q1_def q3_def using ne by (rule quartiles_ordered)
  have b: "iqr_bounds g = (Fin (q1 - 15 / 10 * (q3 - q1)), Fin (q3 + 15 / 10 * (q3 - q1)))"
    unfolding q1_def q3_def using ne by (rule iqr_bounds_Fin)
  have q: "quantile g (25 / 100) = Fin q1" "quantile g (75 / 100) = Fin q3"
    using ne by (simp_all add: quantile_Fin q1_def q3_def)
  have fl: "\<forall>i < length g.
          (g ! i < q1 - 15 / 10 * (q3 - q1) \<or> q3 + 15 / 10 * (q3 - q1) < g ! i \<longrightarrow>
             detect_supplier_outliers g ! i \<and> detect_outliers g ! i)
        \<and> (q1 - 15 / 10 * (q3 - q1) \<le> g ! i \<and> g ! i \<le> q3 + 15 / 10 * (q3 - q1) \<longrightarrow>
             \<not> detect_supplier_outliers g ! i \<and> \<not> detect_outliers g ! i)"
    by (auto simp: detect_supplier_outliers_def detect_outliers_def b is_outlier_def fgt_def)
  from le have "q1 - 15 / 10 * (q3 - q1) \<le> q1" "q3 \<le> q3 + 15 / 10 * (q3 - q1)" by simp_all
  with q b le fl show ?thesis by blast
qed


lemma iqr_bounds_prices5: "iqr_bounds prices5 = (Fin 10, Fin 10)"
  by (simp add: iqr_bounds_def quantile_def interp_def prices5_def fsub_def Let_def)

theorem outlier_bounds_witness:
  "detect_supplier_outliers prices5 ! 4 \<and> detect_outliers prices5 ! 4
   \<and> \<not> detect_supplier_outliers prices5 ! 0 \<and> \<not> detect_outliers prices5 ! 0"
proof -
  have h: "4 \<le> length prices5" by (simp add: prices5_def)
  from outlier_bounds [OF h] obtain q1 q3 lower upper where
    b: "iqr_bounds prices5 = (Fin lower, Fin upper)"
    and f: "\<forall>i < length prices5.
          (prices5 ! i < lower \<or> upper < prices5 ! i \<longrightarrow>
             detect_supplier_outliers prices5 ! i \<and> detect_outliers prices5 ! i)
        \<and> (lower \<le> prices5 ! i \<and> prices5 ! i \<le> upper \<longrightarrow>
             \<not> detect_supplier_outliers prices5 ! i \<and> \<not> detect_outliers prices5 ! i)"
    by blast
  from b have lu: "lower = 10" "upper = 10" by (simp_all add: iqr_bounds_prices5)
  have "prices5 ! 4 = 100" "prices5 ! 0 = 10" "4 < length prices5" "0 < length prices5"
    by (simp_all add: prices5_def)
  with f lu show ?thesis by force
qed

lemma sort_small_cases:
  assumes "g \<noteq> []" "length g \<le> 3"
  obtains a where "sort g = [a]" "length g = 1"
  | a b where "sort g = [a, b]" "a \<le> b" "length g = 2"
  | a b c where "sort g = [a, b, c]" "a \<le> b" "b \<le> c" "length g = 3"
proof -
  have l: "length (sort g) = length g" by simp
  have s: "sorted (sort g)" by simp
  show ?thesis
  proof (cases "sort g")
    case Nil
    with l assms(1) show ?thesis by simp
  next
    case c1: (Cons a t1)
    show ?thesis
    proof (cases t1)
      case Nil
      with c1 l that(1) show ?thesis by simp
    next
      case c2: (Cons b t2)
      show ?thesis
      proof (cases t2)
        case Nil
        with c1 c2 l s that(2) show ?thesis by simp
      next
        case c3: (Cons c t3)
        with c1 c2 l assms(2) have "t3 = []" by (cases t3) auto
        with c1 c2 c3 l s that(3) show ?thesis by simp
      qed
    qed
  qed
qed

lemma not_outlier_between:
  assumes "b = (Fin lower, Fin upper)" "lower \<le> x" "x \<le> upper"
  shows "\<not> is_outlier b x"
  using assms by (simp add: is_outlier_def fgt_def)

lemma no_outlier_small:
  assumes "length g \<le> 3" "x \<in> set g"
  shows "\<not> is_outlier (iqr_bounds g) x"
proof -
  from assms(2) have ne: "g \<noteq> []" by auto
  have xs: "x \<in> set (sort g)" using assms(2) by simp
  from ne assms(1) show ?thesis
  proof (cases rule: sort_small_cases)
    case (1 a)
    then have "iqr_bounds g = (Fin a, Fin a)"
      using ne by (simp add: iqr_bounds_def quantile_def interp_def fsub_def Let_def)
    moreover from xs 1 have "a \<le> x" "x \<le> a" by simp_all
    ultimately show ?thesis by (rule not_outlier_between)
  next
    case (2 a b)
    define q1 where "q1 = a + 1 / 4 * (b - a)"
    define q3 where "q3 = a + 3 / 4 * (b - a)"
    from 2 have "iqr_bounds g = (Fin (q1 - 15 / 10 * (q3 - q1)), Fin (q3 + 15 / 10 * (q3 - q1)))"
      using ne by (simp add: iqr_bounds_def quantile_def interp_def fsub_def Let_def q1_def q3_def)
    moreover from xs 2 have x: "a \<le> x" "x \<le> b" by auto
    have "q1 - 15 / 10 * (q3 - q1) \<le> x"
      using x 2(2) unfolding q1_def q3_def by argo
    moreover have "x \<le> q3 + 15 / 10 * (q3 - q1)"
      using x 2(2) unfolding q1_def q3_def by argo
    ultimately show ?thesis by (rule not_outlier_between)
  next
    case (3 a b c)
    define q1 where "q1 = a + 1 / 2 * (b - a)"
    define q3 where "q3 = b + 1 / 2 * (c - b)"
    from 3 have "iqr_bounds g = (Fin (q1 - 15 / 10 * (q3 - q1)), Fin (q3 + 15 / 10 * (q3 - q1)))"
      using ne by (simp add: iqr_bounds_def quantile_def interp_def fsub_def Let_def q1_def q3_def)
    moreover from xs 3 have x: "a \<le> x" "x \<le> c" by auto
    have "q1 - 15 / 10 * (q3 - q1) \<le> x"
      using x 3(2,3) unfolding q1_def q3_def by argo
    moreover have "x \<le> q3 + 15 / 10 * (q3 - q1)"
      using x 3(2,3) unfolding q1_def q3_def by argo
    ultimately show ?thesis by (rule not_outlier_between)
  qed
qed

text \<open>
  In exact arithmetic both classifiers flag no value of a group of at most three values
  (they are total functions: nothing raises, also on the empty group, whose quantiles are
  NaN).
\<close>

theorem small_groups_no_outliers:
  assumes "length g \<le> 3"
  shows "detect_supplier_outliers g = replicate (length g) False
       \<and> detect_outliers g = replicate (length g) False"
proof -
  have "map (is_outlier (iqr_bounds g)) g = map (\<lambda>_. False) g"
    using no_outlier_small [OF assms] by (intro map_cong) auto
  then show ?thesis
    by (simp add: detect_supplier_outliers_def detect_outliers_def map_replicate_const)
qed

theorem small_groups_no_outliers_witness:
  "detect_supplier_outliers [0, 0, 100] = [False, False, False]
   \<and> detect_outliers [0, 0, 100] = [False, False, False]
   \<and> detect_outliers [] = []"
  using small_groups_no_outliers [of "[0, 0, 100]"] small_groups_no_outliers [of "[]"]
  by (simp add: numeral_3_eq_3)

subsection \<open>The classifier in binary64\<close>

text \<open>The exponent of the rounding is the right one.\<close>

lemma bit_length_bounds:
  "0 < n \<Longrightarrow> 2 ^ (bit_length n - 1) \<le> n \<and> n < 2 ^ bit_length n"
proof (induction n rule: bit_length.induct)
  case (1 n)
  show ?case
  proof (cases "n div 2 = 0")
    case True
    with 1(2) have "n = 1" by (simp add: div_eq_0_iff) 
    then show ?thesis by (simp add: bit_length.simps)
  next
    case False
    then have p: "0 < n div 2" by simp
    from 1(2) have nz: "n \<noteq> 0" by simp
    from 1(1) [OF nz p] have ih: "2 ^ (bit_length (n div 2) - 1) \<le> n div 2"
      "n div 2 < 2 ^ bit_length (n div 2)" by simp_all
    have bl: "bit_length n = Suc (bit_length (n div 2))"
      using nz by (subst bit_length.simps) simp
    have pos: "0 < bit_length (n div 2)"
      using p by (subst bit_length.simps) simp
    then have e: "(2::nat) ^ bit_length (n div 2) = 2 * 2 ^ (bit_length (n div 2) - 1)"
      by (cases "bit_length (n div 2)") simp_all
    have "2 ^ (bit_length n - 1) \<le> n"
      using ih(1) e by (simp add: bl)
    moreover have "n < 2 ^ bit_length n"
      using ih(2) by (simp add: bl)
    ultimately show ?thesis ..
  qed
qed

lemma ilog2_bounds:
  assumes "0 < x"
  shows "2 powi ilog2 x \<le> x \<and> x < 2 powi (ilog2 x + 1)"
proof (cases "1 \<le> x")
  case True
  define n where "n = nat \<lfloor>x\<rfloor>"
  have n: "0 < n" "real n \<le> x" "x < real n + 1"
    using True by (simp_all add: n_def)
  from bit_length_bounds [OF n(1)]
  have b: "2 ^ (bit_length n - 1) \<le> n" "n < 2 ^ bit_length n" by simp_all
  have pos: "0 < bit_length n"
    using n(1) by (subst bit_length.simps) simp
  have i: "ilog2 x = int (bit_length n - 1)"
    using True pos by (simp add: ilog2_def n_def [symmetric] of_nat_diff)
  have "real (2 ^ (bit_length n - 1)) \<le> real n" using b(1) of_nat_le_iff by blast
  then have r1: "(2::real) ^ (bit_length n - 1) \<le> real n" by simp
  have lo: "2 powi ilog2 x \<le> x"
    using r1 n(2) by (simp only: i power_int_of_nat)
  have "real n + 1 \<le> real (2 ^ bit_length n)"
    using b(2) by (metis Suc_leI of_nat_Suc of_nat_le_iff add.commute)
  then have r2: "real n + 1 \<le> (2::real) ^ bit_length n" by simp
  have "ilog2 x + 1 = int (bit_length n)" using pos by (simp add: i of_nat_diff)
  then have hi: "x < 2 powi (ilog2 x + 1)"
    using r2 n(3) by (simp only: power_int_of_nat)
  from lo hi show ?thesis ..
next
  case False
  then have x1: "x < 1" by simp
  define m where "m = \<lceil>1 / x\<rceil>"
  define k where "k = nat (m - 1)"
  have inv: "1 < 1 / x" using assms x1 by simp
  then have m2: "2 \<le> m" unfolding m_def by linarith
  have k: "0 < k" "real k < 1 / x" "1 / x \<le> real k + 1"
    using m2 by (simp_all add: k_def m_def) linarith+
  from bit_length_bounds [OF k(1)]
  have b: "2 ^ (bit_length k - 1) \<le> k" "k < 2 ^ bit_length k" by simp_all
  have pos: "0 < bit_length k"
    using k(1) by (subst bit_length.simps) simp
  have i: "ilog2 x = - int (bit_length k)"
    using False by (simp add: ilog2_def k_def m_def)
  have "real k + 1 \<le> real (2 ^ bit_length k)"
    using b(2) by (metis Suc_leI of_nat_Suc of_nat_le_iff add.commute)
  then have "real k + 1 \<le> (2::real) ^ bit_length k" by simp
  with k(3) have "1 / x \<le> 2 ^ bit_length k" by linarith
  then have "1 / 2 ^ bit_length k \<le> x"
    using assms by (simp add: field_simps)
  then have lo: "2 powi ilog2 x \<le> x"
    by (simp add: i power_int_minus divide_inverse)
  have "real (2 ^ (bit_length k - 1)) \<le> real k" using b(1) of_nat_le_iff by blast
  then have "(2::real) ^ (bit_length k - 1) \<le> real k" by simp
  with k(2) have "2 ^ (bit_length k - 1) < 1 / x" by linarith
  then have "x < 1 / 2 ^ (bit_length k - 1)"
    using assms by (simp add: field_simps)
  moreover have "2 powi (ilog2 x + 1) = (1::real) / 2 ^ (bit_length k - 1)"
  proof -
    have "ilog2 x + 1 = - int (bit_length k - 1)" using pos by (simp add: i of_nat_diff)
    then show ?thesis by (simp add: power_int_minus divide_inverse)
  qed
  ultimately have hi: "x < 2 powi (ilog2 x + 1)" by simp
  from lo hi show ?thesis ..
qed

lemmas rnd64_eval = rnd64_def ilog2_def bit_length.simps rint_def Let_def

lemma rnd64_0: "rnd64 0 = Fin 0"
  by (simp add: rnd64_def)

lemma rnd64_10_2: "rnd64 (102 / 10) = Fin d10_2"
  by (simp add: rnd64_eval d10_2_def)

lemma rnd64_30_6: "rnd64 (306 / 10) = Fin d30_6"
  by (simp add: rnd64_eval d30_6_def)

lemma rnd64_1: "rnd64 1 = Fin 1"
  by (simp add: rnd64_eval)

lemma rnd64_3: "rnd64 3 = Fin 3"
  by (simp add: rnd64_eval)

lemma rnd64_d10_2: "rnd64 d10_2 = Fin d10_2"
  by (simp add: rnd64_eval d10_2_def)

lemma rnd64_third: "rnd64 (d30_6 / 3) = Fin d10_2_up"
  by (simp add: rnd64_eval d30_6_def d10_2_up_def)

lemma d10_2_gap: "d10_2_up - d10_2 = 1 / 2 ^ 49"
  by (simp add: d10_2_up_def d10_2_def)

lemma rnd64_gap: "rnd64 (1 / 2 ^ 49) = Fin (1 / 2 ^ 49)"
  by (simp add: rnd64_eval)

lemma rnd64_half_gap: "rnd64 (1 / 2 ^ 49 * (1 / 2)) = Fin (1 / 2 ^ 50)"
  by (simp add: rnd64_eval)

text \<open>
  The tie: \<open>d10_2_up - 2^-50\<close> lies half way between \<open>d10_2\<close> and \<open>d10_2_up\<close> and rounds
  to \<open>d10_2\<close>, whose significand is even.
\<close>

lemma rnd64_tie: "rnd64 (d10_2_up - 1 / 2 ^ 50) = Fin d10_2"
  by (simp add: rnd64_eval d10_2_up_def d10_2_def)

lemma unit_price_1: "fdiv64 (rnd64 (102 / 10)) (rnd64 1) = Fin d10_2"
  unfolding rnd64_10_2 rnd64_1 fdiv64_def by (simp add: f64_def rnd64_d10_2)

lemma unit_price_3: "fdiv64 (rnd64 (306 / 10)) (rnd64 3) = Fin d10_2_up"
  unfolding rnd64_30_6 rnd64_3 fdiv64_def by (simp add: f64_def rnd64_third)

lemma d10_2_less: "d10_2 < d10_2_up"
  by (simp add: d10_2_up_def d10_2_def)

lemma sort_prices3: "sort prices3 = prices3"
  using d10_2_less by (simp add: prices3_def)

lemma lerp64_q1: "lerp64 (Fin d10_2) (Fin d10_2) (1 / 2) = Fin d10_2"
  by (simp add: lerp64_def fsub64_def fmul64_def fsub_def f64_def rnd64_0 rnd64_d10_2)

lemma lerp64_q3: "lerp64 (Fin d10_2) (Fin d10_2_up) (1 / 2) = Fin d10_2"
proof -
  have a: "fsub64 (Fin d10_2_up) (Fin d10_2) = Fin (1 / 2 ^ 49)"
    using rnd64_gap by (simp add: fsub64_def fsub_def f64_def d10_2_gap)
  have b: "fmul64 (Fin (1 / 2 ^ 49)) (Fin (1 / 2)) = Fin (1 / 2 ^ 50)"
    using rnd64_half_gap by (simp add: fmul64_def f64_def)
  have c: "fsub64 (Fin d10_2_up) (Fin (1 / 2 ^ 50)) = Fin d10_2"
    using rnd64_tie by (simp add: fsub64_def fsub_def f64_def)
  show ?thesis
    unfolding lerp64_def Let_def a using b c by simp
qed

lemma quantile64_q1: "quantile64 prices3 (25 / 100) = Fin d10_2"
  using lerp64_q1 by (simp add: quantile64_def sort_prices3) (simp add: prices3_def)

lemma quantile64_q3: "quantile64 prices3 (75 / 100) = Fin d10_2"
  using lerp64_q3 by (simp add: quantile64_def sort_prices3) (simp add: prices3_def)

lemma iqr_bounds64_prices3: "iqr_bounds64 prices3 = (Fin d10_2, Fin d10_2)"
  unfolding iqr_bounds64_def quantile64_q1 quantile64_q3 Let_def
  by (simp add: fsub64_def fadd64_def fmul64_def fsub_def f64_def rnd64_0 rnd64_d10_2)

text \<open>
  C5. The claim says that no value of a group of 0 to 3 values is flagged. In doubles it
  fails: the three records of \<open>prices3\<close> have the same price per unit, their unit prices
  are 10.2, 10.2 and the next double above it; both quartiles round to 10.2, so the IQR
  is 0 and both bounds are 10.2, and the third value, above the upper bound by one unit
  in the last place, is flagged. Nothing in either classifier guards a zero IQR.
\<close>

theorem small_group_flagged:
  "map (\<lambda>(total_sales, quantity). fdiv64 (rnd64 total_sales) (rnd64 quantity))
       [(102 / 10, 1), (102 / 10, 1), (306 / 10, 3)] = map Fin prices3
   \<and> length prices3 = 3
   \<and> iqr_bounds64 prices3 = (Fin d10_2, Fin d10_2)
   \<and> detect_supplier_outliers64 prices3 = [False, False, True]
   \<and> detect_outliers64 prices3 = [False, False, True]
   \<and> detect_supplier_outliers prices3 = [False, False, False]"
proof -
  have u: "map (\<lambda>(total_sales, quantity). fdiv64 (rnd64 total_sales) (rnd64 quantity))
       [(102 / 10, 1), (102 / 10, 1), (306 / 10, 3)] = map Fin prices3"
    using unit_price_1 unit_price_3 by (simp add: prices3_def)
  have f: "map (is_outlier (Fin d10_2, Fin d10_2)) prices3 = [False, False, True]"
    using d10_2_less by (simp add: is_outlier_def fgt_def prices3_def)
  have l: "length prices3 = 3" by (simp add: prices3_def)
  then have "map (is_outlier (iqr_bounds prices3)) prices3 = map (\<lambda>_. False) prices3"
    using no_outlier_small [of prices3] by (intro map_cong) auto
  then have e: "detect_supplier_outliers prices3 = [False, False, False]"
    by (simp add: detect_supplier_outliers_def) (simp add: prices3_def)
  show ?thesis
    using u l f e
    by (simp add: detect_supplier_outliers64_def detect_outliers64_def iqr_bounds64_prices3)
qed

section \<open>Properties: price index builder\<close>

lemma group_keys_set: "set (group_keys rows) = pi_key ` set rows"
  by (simp add: group_keys_def)

lemma group_keys_distinct: "distinct (group_keys rows)"
  by (simp add: group_keys_def)

lemma nanmean_Nil: "nanmean [] = NaN"
  by (simp add: nanmean_def)

lemma group_rows_Nil_iff: "group_rows rows k = [] \<longleftrightarrow> k \<notin> pi_key ` set rows"
  by (auto simp: group_rows_def filter_empty_conv)

lemma merge_left_groupby_mean:
  "merge_left (groupby_mean rows col) k = nanmean (map col (group_rows rows k))"
proof (cases "k \<in> set (group_keys rows)")
  case True
  then have "map_of (groupby_mean rows col) k = Some (nanmean (map col (group_rows rows k)))"
    by (simp add: groupby_mean_def map_of_map_restrict)
  then show ?thesis by (simp add: merge_left_def)
next
  case False
  then have "map_of (groupby_mean rows col) k = None"
    by (simp add: groupby_mean_def map_of_map_restrict)
  moreover from False have "group_rows rows k = []"
    by (simp add: group_rows_Nil_iff group_keys_set)
  ultimately show ?thesis by (simp add: merge_left_def nanmean_Nil)
qed

lemma group_rows_filter:
  "group_rows (filter P df) k = filter (\<lambda>r. P r \<and> pi_key r = k) df"
  by (simp add: group_rows_def conj_commute)

lemma build_price_index_closed:
  assumes "re_compile target_supplier = Some search" and "target_supplier \<noteq> ''Comp''"
  shows "build_price_index re_compile df target_supplier =
     Inr (map (price_index_row_of search df)
       (filter (\<lambda>k. \<not> isna (comp_mean search df k))
          (group_keys (filter (\<lambda>r. search (Supplier r)) df))))"
  using assms unfolding build_price_index_def Let_def
  apply (simp add: merge_left_groupby_mean)
  apply (simp add: groupby_mean_def filter_map o_def case_prod_unfold group_rows_filter
      target_rows_def [symmetric] comp_rows_def [symmetric] price_index_row_of_def Let_def
      comp_mean_def)
  done

lemma out_key_row_of [simp]: "out_key (price_index_row_of search df k) = k"
  by (simp add: out_key_def price_index_row_of_def Let_def)

lemma fold_fadd_Fin:
  "fold (\<lambda>v acc. fadd acc v) (map Fin ps) (Fin a) = Fin (a + sum_list ps)"
  by (induction ps arbitrary: a) (simp_all add: add.assoc)

lemma nanmean_map_Fin:
  "ps \<noteq> [] \<Longrightarrow> nanmean (map Fin ps) = Fin (sum_list ps / real (length ps))"
  by (simp add: nanmean_def isna_def fold_fadd_Fin filter_id_conv)

lemma all_Fin_map:
  assumes "\<forall>v \<in> set xs. \<exists>p. v = Fin p"
  shows "\<exists>ps. xs = map Fin ps"
  using assms by (simp add: ex_map_conv)

lemma nanmean_finite_not_na:
  assumes "\<forall>v \<in> set xs. \<exists>p. v = Fin p"
  shows "isna (nanmean xs) \<longleftrightarrow> xs = []"
proof (cases "xs = []")
  case True
  then show ?thesis by (simp add: nanmean_Nil isna_def)
next
  case False
  from all_Fin_map [OF assms] obtain ps where ps: "xs = map Fin ps" by blast
  with False have "ps \<noteq> []" by auto
  then show ?thesis using False by (simp add: ps nanmean_map_Fin isna_def)
qed

lemma fround_close:
  "(\<forall>q. x = Fin q \<longrightarrow>
      (\<exists>p i. fround n x = Fin p \<and> p = of_int i / 10 ^ n \<and> \<bar>p - q\<bar> \<le> 1 / (2 * 10 ^ n)))
   \<and> ((\<forall>q. x \<noteq> Fin q) \<longrightarrow> fround n x = x)"
proof (cases x)
  case (Fin q)
  have "round_dp n q = of_int (rint (q * 10 ^ n)) / 10 ^ n"
    by (simp add: round_dp_def)
  with round_dp_close [of n q] show ?thesis
    unfolding Fin by auto
qed simp_all

text \<open>
  C3, as the code has it. A target that does not compile raises \<open>re.error\<close> and the
  target \<open>Comp\<close> raises \<open>KeyError\<close>. Otherwise the result has exactly one row per (store,
  sub-department, section) that has target rows and a competitor mean unit price that is
  not NaN; the means skip NaN unit prices; the price index of a row is the target mean
  divided by the competitor mean and rounded to 3 decimals: when the quotient is a number,
  a multiple of 0.001 at most 0.0005 away from it (a quotient half way between two such
  multiples may be rounded either way by the doubles), and the quotient itself when that
  is an infinity or NaN. A combination without competitor rows has no row. When all unit
  prices are finite the rows are exactly those of the combinations that have target and
  competitor rows.
\<close>

theorem build_price_index_rows:
  fixes re_compile :: regex_engine and df :: "promo_sale list" and target_supplier :: string
  shows "(re_compile target_supplier = None
          \<longrightarrow> build_price_index re_compile df target_supplier = Inl ReError)
    \<and> (\<forall>search. re_compile target_supplier = Some search \<longrightarrow>
         (target_supplier = ''Comp''
            \<longrightarrow> build_price_index re_compile df target_supplier = Inl KeyError)
       \<and> (target_supplier \<noteq> ''Comp'' \<longrightarrow>
            (\<exists>out. build_price_index re_compile df target_supplier = Inr out
              \<and> distinct (map out_key out)
              \<and> set (map out_key out)
                  = {k. target_rows search df k \<noteq> [] \<and> \<not> isna (comp_mean search df k)}
              \<and> (\<forall>row \<in> set out.
                    Target_Avg_Price row = target_mean search df (out_key row)
                  \<and> Comp_Avg_Price row = comp_mean search df (out_key row)
                  \<and> (\<forall>q. fdiv (Target_Avg_Price row) (Comp_Avg_Price row) = Fin q \<longrightarrow>
                        (\<exists>p i. PI_Price_Index row = Fin p \<and> p = of_int i / 1000
                           \<and> \<bar>p - q\<bar> \<le> 1 / 2000))
                  \<and> ((\<forall>q. fdiv (Target_Avg_Price row) (Comp_Avg_Price row) \<noteq> Fin q) \<longrightarrow>
                        PI_Price_Index row = fdiv (Target_Avg_Price row) (Comp_Avg_Price row)))
              \<and> (\<forall>k. comp_rows search df k = [] \<longrightarrow> k \<notin> set (map out_key out))
              \<and> ((\<forall>r \<in> set df. \<exists>p. Unit_Price r = Fin p) \<longrightarrow>
                    set (map out_key out)
                      = {k. target_rows search df k \<noteq> [] \<and> comp_rows search df k \<noteq> []}))))"
proof -
  have a: "re_compile target_supplier = None
          \<longrightarrow> build_price_index re_compile df target_supplier = Inl ReError"
    by (simp add: build_price_index_def)
  have b: "build_price_index re_compile df target_supplier = Inl KeyError"
    if "re_compile target_supplier = Some search" "target_supplier = ''Comp''" for search
    using that by (simp add: build_price_index_def Let_def)
  have c: "\<exists>out. build_price_index re_compile df target_supplier = Inr out
              \<and> distinct (map out_key out)
              \<and> set (map out_key out)
                  = {k. target_rows search df k \<noteq> [] \<and> \<not> isna (comp_mean search df k)}
              \<and> (\<forall>row \<in> set out.
                    Target_Avg_Price row = target_mean search df (out_key row)
                  \<and> Comp_Avg_Price row = comp_mean search df (out_key row)
                  \<and> (\<forall>q. fdiv (Target_Avg_Price row) (Comp_Avg_Price row) = Fin q \<longrightarrow>
                        (\<exists>p i. PI_Price_Index row = Fin p \<and> p = of_int i / 1000
                           \<and> \<bar>p - q\<bar> \<le> 1 / 2000))
                  \<and> ((\<forall>q. fdiv (Target_Avg_Price row) (Comp_Avg_Price row) \<noteq> Fin q) \<longrightarrow>
                        PI_Price_Index row = fdiv (Target_Avg_Price row) (Comp_Avg_Price row)))
              \<and> (\<forall>k. comp_rows search df k = [] \<longrightarrow> k \<notin> set (map out_key out))
              \<and> ((\<forall>r \<in> set df. \<exists>p. Unit_Price r = Fin p) \<longrightarrow>
                    set (map out_key out)
                      = {k. target_rows search df k \<noteq> [] \<and> comp_rows search df k \<noteq> []})"
    if re: "re_compile target_supplier = Some search" and nc: "target_supplier \<noteq> ''Comp''"
    for search
  proof -
    let ?mask = "\<lambda>r. search (Supplier r)"
    let ?keys = "filter (\<lambda>k. \<not> isna (comp_mean search df k)) (group_keys (filter ?mask df))"
    define out where "out = map (price_index_row_of search df) ?keys"
    have o: "build_price_index re_compile df target_supplier = Inr out"
      by (simp add: out_def build_price_index_closed
          [where re_compile = re_compile and target_supplier = target_supplier, OF re nc])
    have keys: "map out_key out = ?keys"
      by (simp add: out_def o_def)
    have d: "distinct (map out_key out)"
      unfolding keys by (simp add: group_keys_distinct)
    have tk: "k \<in> set (group_keys (filter ?mask df)) \<longleftrightarrow> target_rows search df k \<noteq> []" for k
      by (auto simp: group_keys_set target_rows_def filter_empty_conv)
    have s: "set (map out_key out)
        = {k. target_rows search df k \<noteq> [] \<and> \<not> isna (comp_mean search df k)}"
      unfolding keys by (auto simp: tk)
    have v: "Target_Avg_Price row = target_mean search df (out_key row)
          \<and> Comp_Avg_Price row = comp_mean search df (out_key row)
          \<and> (\<forall>q. fdiv (Target_Avg_Price row) (Comp_Avg_Price row) = Fin q \<longrightarrow>
                (\<exists>p i. PI_Price_Index row = Fin p \<and> p = of_int i / 1000
                   \<and> \<bar>p - q\<bar> \<le> 1 / 2000))
          \<and> ((\<forall>q. fdiv (Target_Avg_Price row) (Comp_Avg_Price row) \<noteq> Fin q) \<longrightarrow>
                PI_Price_Index row = fdiv (Target_Avg_Price row) (Comp_Avg_Price row))"
      if "row \<in> set out" for row
    proof -
      from that obtain k where row: "row = price_index_row_of search df k"
        by (auto simp: out_def)
      have p: "PI_Price_Index row = fround 3 (fdiv (Target_Avg_Price row) (Comp_Avg_Price row))"
        by (simp add: row price_index_row_of_def Let_def)
      have m: "Target_Avg_Price row = target_mean search df (out_key row)"
        "Comp_Avg_Price row = comp_mean search df (out_key row)"
        by (simp_all add: row out_key_def price_index_row_of_def Let_def target_mean_def
            comp_mean_def)
      from fround_close [of "fdiv (Target_Avg_Price row) (Comp_Avg_Price row)" 3] m
      show ?thesis unfolding p by simp
    qed
    have e: "\<forall>k. comp_rows search df k = [] \<longrightarrow> k \<notin> set (map out_key out)"
      unfolding s by (simp add: comp_mean_def nanmean_Nil isna_def)
    have f: "set (map out_key out)
              = {k. target_rows search df k \<noteq> [] \<and> comp_rows search df k \<noteq> []}"
      if fin: "\<forall>r \<in> set df. \<exists>p. Unit_Price r = Fin p"
    proof -
      have "isna (comp_mean search df k) \<longleftrightarrow> comp_rows search df k = []" for k
      proof -
        have "\<forall>v \<in> set (map Unit_Price (comp_rows search df k)). \<exists>p. v = Fin p"
          using fin by (auto simp: comp_rows_def)
        from nanmean_finite_not_na [OF this] show ?thesis by (simp add: comp_mean_def)
      qed
      then show ?thesis unfolding s by simp
    qed
    from o d s v e f show ?thesis by blast
  qed
  from a b c show ?thesis by blast
qed

lemma pi_sales_unfold:
  "pi_sales = map (\<lambda>r. sale.extend r
            \<lparr>Unit_Price = unit_price r,
             Discount_Pct = discount_pct r,
             Year_Week = year_week (Date_Of_Sale r),
             On_Promo = False,
             Day_of_Week = day_name (Date_Of_Sale r)\<rparr>)
     [mk_sale ''A'' ''BIDCO AFRICA LIMITED'' 1 95 100,
      mk_sale ''A'' ''RIVAL LTD'' 2 200 100,
      mk_sale ''B'' ''Bidco Africa Limited'' 1 90 100]"
  by (simp add: pi_sales_def detect_promotions_def promo_days_def promo_key_def mk_sale_def
      is_promo_day_def discount_pct_def unit_price_def fsub_def fge_def)

lemma re_compile_plain_Bidco: "re_compile_plain ''Bidco'' = Some (str_contains_ci ''Bidco'')"
  by (simp add: re_compile_plain_def re_metachars_def)

lemma re_compile_plain_Comp: "re_compile_plain ''Comp'' = Some (str_contains_ci ''Comp'')"
  by (simp add: re_compile_plain_def re_metachars_def)

lemma re_compile_plain_paren: "re_compile_plain ''Bidco('' = None"
  by (simp add: re_compile_plain_def re_metachars_def)

theorem build_price_index_rows_witness:
  "(\<exists>out. build_price_index re_compile_plain pi_sales ''Bidco'' = Inr out
      \<and> (''A'', ''COOKING'', ''OILS'') \<in> set (map out_key out)
      \<and> (''B'', ''COOKING'', ''OILS'') \<notin> set (map out_key out))
   \<and> build_price_index re_compile_plain pi_sales ''Comp'' = Inl KeyError
   \<and> build_price_index re_compile_plain pi_sales ''Bidco('' = Inl ReError"
proof -
  let ?search = "str_contains_ci ''Bidco''"
  have c: "comp_rows ?search pi_sales (''B'', ''COOKING'', ''OILS'') = []"
    by (simp add: pi_sales_unfold comp_rows_def str_contains_ci_def lower_char_def pi_key_def
        mk_sale_def sale.extend_def)
  have t: "target_rows ?search pi_sales (''A'', ''COOKING'', ''OILS'') \<noteq> []"
    by (simp add: pi_sales_unfold target_rows_def str_contains_ci_def lower_char_def pi_key_def
        mk_sale_def sale.extend_def)
  have m: "comp_mean ?search pi_sales (''A'', ''COOKING'', ''OILS'') = Fin 100"
    by (simp add: pi_sales_unfold comp_mean_def comp_rows_def str_contains_ci_def lower_char_def
        pi_key_def mk_sale_def sale.extend_def nanmean_def isna_def unit_price_def)
  have n: "''Bidco'' \<noteq> ''Comp''" by simp
  from build_price_index_rows [of re_compile_plain "''Bidco''" pi_sales]
    re_compile_plain_Bidco n
  obtain out where out: "build_price_index re_compile_plain pi_sales ''Bidco'' = Inr out"
    "set (map out_key out)
       = {k. target_rows ?search pi_sales k \<noteq> [] \<and> \<not> isna (comp_mean ?search pi_sales k)}"
    "\<forall>k. comp_rows ?search pi_sales k = [] \<longrightarrow> k \<notin> set (map out_key out)"
    by auto
  from out(2) t m have 1: "(''A'', ''COOKING'', ''OILS'') \<in> set (map out_key out)"
    by (simp add: isna_def)
  from out(3) c have 2: "(''B'', ''COOKING'', ''OILS'') \<notin> set (map out_key out)"
    by blast
  from build_price_index_rows [of re_compile_plain "''Comp''" pi_sales] re_compile_plain_Comp
  have 3: "build_price_index re_compile_plain pi_sales ''Comp'' = Inl KeyError"
    by simp
  from build_price_index_rows [of re_compile_plain "''Bidco(''" pi_sales] re_compile_plain_paren
  have 4: "build_price_index re_compile_plain pi_sales ''Bidco('' = Inl ReError"
    by simp
  from out(1) 1 2 3 4 show ?thesis by blast
qed

text \<open>
  The claim as stated fails: in \<open>pi_sales_nan\<close> the combination of store A has a target row
  and a competitor row, and the result has no row for it, because the competitor's only
  unit price is 0 / 0 = NaN and its mean is NaN.
\<close>

theorem build_price_index_nan_counterexample:
  "build_price_index re_compile_plain pi_sales_nan ''Bidco'' = Inr []
   \<and> target_rows (str_contains_ci ''Bidco'') pi_sales_nan (''A'', ''COOKING'', ''OILS'') \<noteq> []
   \<and> comp_rows (str_contains_ci ''Bidco'') pi_sales_nan (''A'', ''COOKING'', ''OILS'') \<noteq> []"
proof -
  have n: "''Bidco'' \<noteq> ''Comp''" by simp
  show ?thesis
    unfolding build_price_index_closed
        [where re_compile = re_compile_plain and target_supplier = "''Bidco''",
         OF re_compile_plain_Bidco n]
    by (simp add: pi_sales_nan_def detect_promotions_def comp_mean_def
      target_rows_def comp_rows_def str_contains_ci_def lower_char_def pi_key_def
      mk_sale_def sale.extend_def nanmean_def isna_def unit_price_def group_keys_def)
qed

section \<open>Properties: promotion uplift\<close>

lemma sum_list_if_filter:
  "sum_list (map (\<lambda>r. if P r then f r else (0::real)) xs) = sum_list (map f (filter P xs))"
  by (induction xs) simp_all

lemma section_sums:
  "sum_list (map (\<lambda>r. if On_Promo r then Quantity r else 0)
      (filter (\<lambda>r. Supplier r = ''BIDCO AFRICA LIMITED'' \<and> Section r = s) df))
     = sum_list (on_promo_quantities df s)"
  "sum_list (map (\<lambda>r. if \<not> On_Promo r then Quantity r else 0)
      (filter (\<lambda>r. Supplier r = ''BIDCO AFRICA LIMITED'' \<and> Section r = s) df))
     = sum_list (off_promo_quantities df s)"
  by (simp_all add: sum_list_if_filter on_promo_quantities_def off_promo_quantities_def conj_ac)

lemma calculate_bidco_promo_uplift_closed:
  "calculate_bidco_promo_uplift df =
     sort_key (\<lambda>row. descending_key (Promo_Uplift_Pct row))
       (map (section_units_row_of df)
         (sort (remdups (map Section (filter (\<lambda>r. Supplier r = ''BIDCO AFRICA LIMITED'') df)))))"
  unfolding calculate_bidco_promo_uplift_def Let_def
  by (simp add: section_sums o_def section_units_row_of_def [abs_def])

lemma uplift_value:
  "Promo_Uplift_Pct (section_units_row_of df s) =
     (if sum_list (off_promo_quantities df s) = 0 then NaN
      else Fin ((sum_list (on_promo_quantities df s) / sum_list (off_promo_quantities df s) - 1) * 100))"
  by (simp add: section_units_row_of_def replace_zero_nan_def diff_divide_distrib)

lemma mean_quantity_lookup:
  "map_of (mean_quantity rows) k =
     (if k \<in> store_section ` set rows
      then Some (nanmean (map (\<lambda>r. Fin (Quantity r)) (filter (\<lambda>r. store_section r = k) rows)))
      else None)"
  by (simp add: mean_quantity_def map_of_map_restrict restrict_map_def image_iff)

lemma baseline_lookup:
  "(case map_of (mean_quantity (filter (\<lambda>r. On_Promo r = False)
        (filter (\<lambda>r. Supplier r = ''BIDCO AFRICA LIMITED'') df))) k of
      None \<Rightarrow> NaN | Some v \<Rightarrow> v)
   = nanmean (map Fin (store_off_promo df k))"
proof (cases "store_off_promo df k = []")
  case True
  then have "k \<notin> store_section ` set (filter (\<lambda>r. On_Promo r = False)
        (filter (\<lambda>r. Supplier r = ''BIDCO AFRICA LIMITED'') df))"
    by (auto simp: store_off_promo_def filter_empty_conv)
  then show ?thesis using True by (simp add: mean_quantity_lookup nanmean_Nil)
next
  case False
  then have "k \<in> store_section ` set (filter (\<lambda>r. On_Promo r = False)
        (filter (\<lambda>r. Supplier r = ''BIDCO AFRICA LIMITED'') df))"
    by (auto simp: store_off_promo_def filter_empty_conv image_iff)
  then show ?thesis
    by (simp add: mean_quantity_lookup store_off_promo_def conj_ac o_def)
qed

lemma promo_table:
  "mean_quantity (filter (\<lambda>r. On_Promo r = True)
        (filter (\<lambda>r. Supplier r = ''BIDCO AFRICA LIMITED'') df))
     = map (\<lambda>k. (k, nanmean (map Fin (store_on_promo df k))))
         (sort (remdups (map store_section (filter (\<lambda>r. On_Promo r = True)
            (filter (\<lambda>r. Supplier r = ''BIDCO AFRICA LIMITED'') df)))))"
  by (simp add: mean_quantity_def store_on_promo_def conj_ac o_def)

lemma calculate_bidco_store_section_uplift_closed:
  "calculate_bidco_store_section_uplift df =
     map (pa_row_of df)
       (sort (remdups (map store_section
          (filter (\<lambda>r. On_Promo r = True) (filter (\<lambda>r. Supplier r = ''BIDCO AFRICA LIMITED'') df)))))"
  unfolding calculate_bidco_store_section_uplift_def Let_def promo_table baseline_lookup
  by (simp add: o_def case_prod_unfold pa_row_of_def Let_def)

lemma pa_key_row_of [simp]: "pa_key (pa_row_of df k) = k"
  by (simp add: pa_key_def pa_row_of_def Let_def)

lemma nanmean_mean: "xs \<noteq> [] \<Longrightarrow> nanmean (map Fin xs) = Fin (mean xs)"
  by (simp add: nanmean_map_Fin mean_def)

lemma uplift_of_means:
  "b \<noteq> 0 \<Longrightarrow> fmul (fdiv (fsub (Fin p) (Fin b)) (Fin b)) (Fin 100) = Fin ((p / b - 1) * 100)"
  by (simp add: fsub_def diff_divide_distrib)

lemma uplift_zero_baseline:
  "fmul (fdiv (fsub (Fin p) (Fin 0)) (Fin 0)) (Fin 100)
     = (if p > 0 then PInf else if p < 0 then NInf else NaN)"
  by (simp add: fsub_def)

lemma pa_row_of_values:
  "PA_Promo_Units (pa_row_of df k) = nanmean (map Fin (store_on_promo df k))"
  "store_off_promo df k = [] \<Longrightarrow>
     PA_Baseline_Units (pa_row_of df k) = NaN \<and> PA_Promo_Uplift_Pct (pa_row_of df k) = NaN
     \<and> Promo_Uplift_Pct_Fill (pa_row_of df k) = Fin 0"
  "store_on_promo df k \<noteq> [] \<Longrightarrow> store_off_promo df k \<noteq> [] \<Longrightarrow> mean (store_off_promo df k) \<noteq> 0 \<Longrightarrow>
     PA_Promo_Uplift_Pct (pa_row_of df k)
       = Fin ((mean (store_on_promo df k) / mean (store_off_promo df k) - 1) * 100)
     \<and> Promo_Uplift_Pct_Fill (pa_row_of df k)
       = Fin ((mean (store_on_promo df k) / mean (store_off_promo df k) - 1) * 100)"
  "store_on_promo df k \<noteq> [] \<Longrightarrow> store_off_promo df k \<noteq> [] \<Longrightarrow> mean (store_off_promo df k) = 0 \<Longrightarrow>
     PA_Promo_Uplift_Pct (pa_row_of df k)
       = (if mean (store_on_promo df k) > 0 then PInf
          else if mean (store_on_promo df k) < 0 then NInf else NaN)"
proof -
  show "PA_Promo_Units (pa_row_of df k) = nanmean (map Fin (store_on_promo df k))"
    by (simp add: pa_row_of_def Let_def)
  show "store_off_promo df k = [] \<Longrightarrow>
     PA_Baseline_Units (pa_row_of df k) = NaN \<and> PA_Promo_Uplift_Pct (pa_row_of df k) = NaN
     \<and> Promo_Uplift_Pct_Fill (pa_row_of df k) = Fin 0"
    by (cases "nanmean (map Fin (store_on_promo df k))")
      (simp_all add: pa_row_of_def Let_def nanmean_Nil fsub_def fillna0_def isna_def)
  show "store_on_promo df k \<noteq> [] \<Longrightarrow> store_off_promo df k \<noteq> [] \<Longrightarrow> mean (store_off_promo df k) \<noteq> 0 \<Longrightarrow>
     PA_Promo_Uplift_Pct (pa_row_of df k)
       = Fin ((mean (store_on_promo df k) / mean (store_off_promo df k) - 1) * 100)
     \<and> Promo_Uplift_Pct_Fill (pa_row_of df k)
       = Fin ((mean (store_on_promo df k) / mean (store_off_promo df k) - 1) * 100)"
    by (simp add: pa_row_of_def Let_def nanmean_mean uplift_of_means fillna0_def isna_def)
  show "store_on_promo df k \<noteq> [] \<Longrightarrow> store_off_promo df k \<noteq> [] \<Longrightarrow> mean (store_off_promo df k) = 0 \<Longrightarrow>
     PA_Promo_Uplift_Pct (pa_row_of df k)
       = (if mean (store_on_promo df k) > 0 then PInf
          else if mean (store_on_promo df k) < 0 then NInf else NaN)"
    using uplift_zero_baseline [of "mean (store_on_promo df k)"]
    by (simp add: pa_row_of_def Let_def nanmean_mean)
qed

lemma calculate_bidco_store_section_uplift_keys:
  "set (map pa_key (calculate_bidco_store_section_uplift df)) = {k. store_on_promo df k \<noteq> []}"
proof -
  have "set (map pa_key (calculate_bidco_store_section_uplift df))
      = store_section ` {r \<in> set df. Supplier r = ''BIDCO AFRICA LIMITED'' \<and> On_Promo r}"
    by (auto simp: calculate_bidco_store_section_uplift_closed o_def)
  also have "\<dots> = {k. store_on_promo df k \<noteq> []}"
    by (force simp: store_on_promo_def filter_empty_conv image_iff)
  finally show ?thesis .
qed

text \<open>
  C6, as the code has it. \<open>calculate_bidco_promo_uplift\<close> has one row per section of the
  supplier, holding the total on-promotion and off-promotion quantities, with uplift
  (on-promotion total / off-promotion total - 1) * 100, and NaN when the off-promotion total
  is zero. \<open>calculate_bidco_store_section_uplift\<close> has one row per store and section in which
  the supplier has on-promotion records, with uplift
  (mean on-promotion quantity / mean off-promotion quantity - 1) * 100; where the store and
  section has no off-promotion record the uplift is NaN and the filled uplift is 0, and a
  baseline mean of zero gives an infinity (or NaN when the promotion mean is zero too).
  Both are total functions: neither raises on a zero or absent baseline.
\<close>

theorem promo_uplift_computation:
  fixes df :: "promo_sale list"
  shows "(\<forall>row \<in> set (calculate_bidco_promo_uplift df).
        SU_Promo_Units row = sum_list (on_promo_quantities df (SU_Section row))
      \<and> SU_Baseline_Units row = sum_list (off_promo_quantities df (SU_Section row))
      \<and> Promo_Uplift_Pct row =
          (if SU_Baseline_Units row = 0 then NaN
           else Fin ((SU_Promo_Units row / SU_Baseline_Units row - 1) * 100)))
    \<and> set (map SU_Section (calculate_bidco_promo_uplift df))
        = Section ` {r \<in> set df. Supplier r = ''BIDCO AFRICA LIMITED''}
    \<and> set (map pa_key (calculate_bidco_store_section_uplift df))
        = {k. store_on_promo df k \<noteq> []}
    \<and> (\<forall>row \<in> set (calculate_bidco_store_section_uplift df).
        PA_Promo_Units row = Fin (mean (store_on_promo df (pa_key row)))
      \<and> (store_off_promo df (pa_key row) = [] \<longrightarrow>
            PA_Promo_Uplift_Pct row = NaN \<and> Promo_Uplift_Pct_Fill row = Fin 0)
      \<and> (store_off_promo df (pa_key row) \<noteq> [] \<and> mean (store_off_promo df (pa_key row)) \<noteq> 0 \<longrightarrow>
            PA_Promo_Uplift_Pct row
              = Fin ((mean (store_on_promo df (pa_key row))
                      / mean (store_off_promo df (pa_key row)) - 1) * 100)
          \<and> Promo_Uplift_Pct_Fill row = PA_Promo_Uplift_Pct row)
      \<and> (store_off_promo df (pa_key row) \<noteq> [] \<and> mean (store_off_promo df (pa_key row)) = 0 \<longrightarrow>
            PA_Promo_Uplift_Pct row
              = (if mean (store_on_promo df (pa_key row)) > 0 then PInf
                 else if mean (store_on_promo df (pa_key row)) < 0 then NInf else NaN)))"
proof -
  have a: "\<forall>row \<in> set (calculate_bidco_promo_uplift df).
        SU_Promo_Units row = sum_list (on_promo_quantities df (SU_Section row))
      \<and> SU_Baseline_Units row = sum_list (off_promo_quantities df (SU_Section row))
      \<and> Promo_Uplift_Pct row =
          (if SU_Baseline_Units row = 0 then NaN
           else Fin ((SU_Promo_Units row / SU_Baseline_Units row - 1) * 100))"
  proof
    fix row assume "row \<in> set (calculate_bidco_promo_uplift df)"
    then obtain s where row: "row = section_units_row_of df s"
      by (auto simp: calculate_bidco_promo_uplift_closed)
    have f: "SU_Section row = s" "SU_Promo_Units row = sum_list (on_promo_quantities df s)"
      "SU_Baseline_Units row = sum_list (off_promo_quantities df s)"
      by (simp_all add: row section_units_row_of_def)
    show "SU_Promo_Units row = sum_list (on_promo_quantities df (SU_Section row))
      \<and> SU_Baseline_Units row = sum_list (off_promo_quantities df (SU_Section row))
      \<and> Promo_Uplift_Pct row =
          (if SU_Baseline_Units row = 0 then NaN
           else Fin ((SU_Promo_Units row / SU_Baseline_Units row - 1) * 100))"
      unfolding f using uplift_value [of df s] by (simp add: row)
  qed
  have b: "set (map SU_Section (calculate_bidco_promo_uplift df))
        = Section ` {r \<in> set df. Supplier r = ''BIDCO AFRICA LIMITED''}"
    by (auto simp: calculate_bidco_promo_uplift_closed section_units_row_of_def image_iff)
  have c: "PA_Promo_Units row = Fin (mean (store_on_promo df (pa_key row)))
      \<and> (store_off_promo df (pa_key row) = [] \<longrightarrow>
            PA_Promo_Uplift_Pct row = NaN \<and> Promo_Uplift_Pct_Fill row = Fin 0)
      \<and> (store_off_promo df (pa_key row) \<noteq> [] \<and> mean (store_off_promo df (pa_key row)) \<noteq> 0 \<longrightarrow>
            PA_Promo_Uplift_Pct row
              = Fin ((mean (store_on_promo df (pa_key row))
                      / mean (store_off_promo df (pa_key row)) - 1) * 100)
          \<and> Promo_Uplift_Pct_Fill row = PA_Promo_Uplift_Pct row)
      \<and> (store_off_promo df (pa_key row) \<noteq> [] \<and> mean (store_off_promo df (pa_key row)) = 0 \<longrightarrow>
            PA_Promo_Uplift_Pct row
              = (if mean (store_on_promo df (pa_key row)) > 0 then PInf
                 else if mean (store_on_promo df (pa_key row)) < 0 then NInf else NaN))"
    if r: "row \<in> set (calculate_bidco_store_section_uplift df)" for row
  proof -
    from r obtain k where row: "row = pa_row_of df k"
      by (auto simp: calculate_bidco_store_section_uplift_closed)
    from r have "pa_key row \<in> set (map pa_key (calculate_bidco_store_section_uplift df))"
      by simp
    then have on: "store_on_promo df k \<noteq> []"
      unfolding calculate_bidco_store_section_uplift_keys by (simp add: row)
    show ?thesis
      using pa_row_of_values [of df k] on by (simp add: row nanmean_mean)
  qed
  from a b c calculate_bidco_store_section_uplift_keys [of df] show ?thesis by blast
qed

lemma uplift_sales_result:
  "calculate_bidco_promo_uplift uplift_sales =
    [\<lparr>SU_Section = ''OILS'', SU_Promo_Units = 10, SU_Baseline_Units = 10,
      Promo_Uplift_Pct = Fin 0\<rparr>,
     \<lparr>SU_Section = ''SOAPS'', SU_Promo_Units = 4, SU_Baseline_Units = 0,
      Promo_Uplift_Pct = NaN\<rparr>]"
  by (simp add: calculate_bidco_promo_uplift_def uplift_sales_def mk_promo_sale_def
      replace_zero_nan_def descending_key_def)

text \<open>
  The claim as stated fails on \<open>calculate_bidco_promo_uplift\<close>: with 10 units on promotion
  against two off-promotion records of 5 units it gives 0 where the ratio of means gives
  100, and with no baseline it gives NaN where the claim says 0.
\<close>

theorem promo_uplift_counterexample:
  "map Promo_Uplift_Pct (calculate_bidco_promo_uplift uplift_sales) = [Fin 0, NaN]
   \<and> promo_uplift_spec (on_promo_quantities uplift_sales ''OILS'')
        (off_promo_quantities uplift_sales ''OILS'') = 100
   \<and> promo_uplift_spec (on_promo_quantities uplift_sales ''SOAPS'')
        (off_promo_quantities uplift_sales ''SOAPS'') = 0"
  by (simp add: uplift_sales_result)
    (simp add: promo_uplift_spec_def on_promo_quantities_def off_promo_quantities_def mean_def
      uplift_sales_def mk_promo_sale_def)


lemma uplift_sales_store_section:
  "calculate_bidco_store_section_uplift uplift_sales =
     [pa_row_of uplift_sales (''A'', ''OILS''), pa_row_of uplift_sales (''A'', ''SOAPS'')]"
  by (simp add: calculate_bidco_store_section_uplift_closed uplift_sales_def mk_promo_sale_def
      store_section_def)

lemma uplift_sales_quantities:
  "store_on_promo uplift_sales (''A'', ''OILS'') = [10]"
  "store_off_promo uplift_sales (''A'', ''OILS'') = [5, 5]"
  "store_on_promo uplift_sales (''A'', ''SOAPS'') = [4]"
  "store_off_promo uplift_sales (''A'', ''SOAPS'') = []"
  by (simp_all add: store_on_promo_def store_off_promo_def uplift_sales_def mk_promo_sale_def
      store_section_def)

theorem promo_uplift_computation_witness:
  "Promo_Uplift_Pct (calculate_bidco_promo_uplift uplift_sales ! 0)
      = Fin ((sum_list (on_promo_quantities uplift_sales ''OILS'')
              / sum_list (off_promo_quantities uplift_sales ''OILS'') - 1) * 100)
   \<and> Promo_Uplift_Pct (calculate_bidco_promo_uplift uplift_sales ! 1) = NaN
   \<and> PA_Promo_Uplift_Pct (calculate_bidco_store_section_uplift uplift_sales ! 0) = Fin 100
   \<and> PA_Promo_Uplift_Pct (calculate_bidco_store_section_uplift uplift_sales ! 1) = NaN
   \<and> Promo_Uplift_Pct_Fill (calculate_bidco_store_section_uplift uplift_sales ! 1) = Fin 0"
proof -
  let ?out = "calculate_bidco_promo_uplift uplift_sales"
  let ?pa = "calculate_bidco_store_section_uplift uplift_sales"
  have m: "?out ! 0 \<in> set ?out" "?out ! 1 \<in> set ?out"
    by (simp_all add: uplift_sales_result)
  have v: "SU_Section (?out ! 0) = ''OILS''" "SU_Baseline_Units (?out ! 0) = 10"
      "SU_Baseline_Units (?out ! 1) = 0"
    by (simp_all add: uplift_sales_result)
  have n: "?pa ! 0 \<in> set ?pa" "?pa ! 1 \<in> set ?pa"
    by (simp_all add: uplift_sales_store_section)
  have k: "pa_key (?pa ! 0) = (''A'', ''OILS'')" "pa_key (?pa ! 1) = (''A'', ''SOAPS'')"
    by (simp_all add: uplift_sales_store_section)
  have q: "mean [5, 5 :: real] \<noteq> 0" "(mean [10 :: real] / mean [5, 5] - 1) * 100 = 100"
    by (simp_all add: mean_def)
  from promo_uplift_computation [of uplift_sales] m v
  have 1: "Promo_Uplift_Pct (?out ! 0)
      = Fin ((sum_list (on_promo_quantities uplift_sales ''OILS'')
              / sum_list (off_promo_quantities uplift_sales ''OILS'') - 1) * 100)"
    and 2: "Promo_Uplift_Pct (?out ! 1) = NaN"
    by (metis zero_neq_numeral)+
  from promo_uplift_computation [of uplift_sales] n(1) k(1) q
  have 3: "PA_Promo_Uplift_Pct (?pa ! 0) = Fin 100"
    by (simp add: uplift_sales_quantities)
  from promo_uplift_computation [of uplift_sales] n(2) k(2)
  have 4: "PA_Promo_Uplift_Pct (?pa ! 1) = NaN \<and> Promo_Uplift_Pct_Fill (?pa ! 1) = Fin 0"
    by (simp add: uplift_sales_quantities)
  from 1 2 3 4 show ?thesis by blast
qed

section \<open>Properties: KPI dashboard\<close>

lemma promo_rate_finite:
  assumes "bidco_data \<noteq> []"
  shows "\<exists>a. promo_rate (start_bidco_kpi_api bidco_data df_original gain) = Fin a"
  using assms by (simp add: start_bidco_kpi_api_def Let_def)

lemma kpis_json_returns:
  assumes "promo_rate env = Fin a"
  shows "\<exists>d. kpis_json env = Inr d"
  using assms by (simp add: kpis_json_def py_round_int_def)

lemma kpis_json_fields:
  assumes "kpis_json env = Inr d"
  shows "data_health d = ''99/100''" and "weekly_gain_ksh d = weekly_gain env"
  using assms by (auto simp: kpis_json_def split: sum.splits)

lemma start_weekly_gain:
  "weekly_gain (start_bidco_kpi_api bidco_data df_original gain) = gain"
  by (simp add: start_bidco_kpi_api_def Let_def)

text \<open>
  C10. For every nonempty \<open>bidco_data\<close> the handler of \<open>/kpis/json\<close> returns, and whatever
  the two datasets are, every response has \<open>data_health\<close> equal to the constant \<open>99/100\<close> and
  \<open>weekly_gain_ksh\<close> equal to the \<open>weekly_gain\<close> argument.
\<close>

theorem kpis_json_constants:
  fixes b1 b2 :: "kpi_sale list" and o1 o2 :: "sale list option" and gain :: real
  shows "(b1 \<noteq> [] \<longrightarrow> (\<exists>d. kpis_json (start_bidco_kpi_api b1 o1 gain) = Inr d))
    \<and> (\<forall>d1 d2. kpis_json (start_bidco_kpi_api b1 o1 gain) = Inr d1
             \<and> kpis_json (start_bidco_kpi_api b2 o2 gain) = Inr d2 \<longrightarrow>
          data_health d1 = ''99/100'' \<and> data_health d2 = data_health d1
        \<and> weekly_gain_ksh d1 = gain \<and> weekly_gain_ksh d2 = gain)"
proof -
  have r: "\<exists>d. kpis_json (start_bidco_kpi_api b1 o1 gain) = Inr d" if "b1 \<noteq> []"
    using promo_rate_finite [OF that] kpis_json_returns by blast
  have f: "data_health d = ''99/100'' \<and> weekly_gain_ksh d = gain"
    if "kpis_json (start_bidco_kpi_api b o' gain) = Inr d" for b o' d
    using kpis_json_fields [OF that] by (simp add: start_weekly_gain)
  from r f show ?thesis by metis
qed

lemma kpi_sales_not_Nil: "kpi_sales \<noteq> []"
  by (simp add: kpi_sales_def uplift_sales_def)

theorem kpis_json_constants_witness:
  "\<exists>d1 d2. kpis_json (start_bidco_kpi_api kpi_sales None 27618) = Inr d1
     \<and> kpis_json (start_bidco_kpi_api (take 1 kpi_sales) (Some []) 27618) = Inr d2
     \<and> data_health d1 = ''99/100'' \<and> data_health d2 = ''99/100''
     \<and> weekly_gain_ksh d1 = 27618 \<and> weekly_gain_ksh d2 = 27618"
proof -
  have n: "kpi_sales \<noteq> []" "take 1 kpi_sales \<noteq> []"
    by (simp_all add: kpi_sales_def uplift_sales_def)
  from kpis_json_constants [of kpi_sales None 27618 "take 1 kpi_sales" "Some []"] n(1)
  obtain d1 where d1: "kpis_json (start_bidco_kpi_api kpi_sales None 27618) = Inr d1" by blast
  from kpis_json_constants [of "take 1 kpi_sales" "Some []" 27618 kpi_sales None] n(2)
  obtain d2 where d2: "kpis_json (start_bidco_kpi_api (take 1 kpi_sales) (Some []) 27618) = Inr d2"
    by blast
  from kpis_json_constants [of kpi_sales None 27618 "take 1 kpi_sales" "Some []"] d1 d2
  show ?thesis by metis
qed

section \<open>Properties: data health pipeline\<close>

lemma pct_Fin: "0 < n \<Longrightarrow> pct k n = Fin (real k / real n * 100)"
  by (simp add: pct_def)

lemma sort_eq_Nil_iff: "sort xs = [] \<longleftrightarrow> xs = []"
  by (metis length_sort length_0_conv)

lemma outliers_df_None_iff:
  "outliers_df df = None \<longleftrightarrow> (\<forall>r \<in> set df. RRP_cell r = None \<or> Item_Code_cell r = None)"
  by (auto simp: outliers_df_def Let_def sort_eq_Nil_iff map_filter_def filter_empty_conv)

lemma store_health_Inr:
  assumes "df \<noteq> []" and "\<exists>r \<in> set df. RRP_cell r \<noteq> None \<and> Item_Code_cell r \<noteq> None"
  shows "\<exists>odf. store_health df = Inr (map (store_health_of df odf) (store_names df))"
proof -
  from assms(2) have "outliers_df df \<noteq> None"
    by (auto simp: outliers_df_None_iff)
  then obtain odf where "outliers_df df = Some odf" by blast
  with assms(1) show ?thesis by (auto simp: store_health_def)
qed

lemma store_health_Inr_D:
  assumes "store_health df = Inr sh"
  shows "\<exists>odf. sh = map (store_health_of df odf) (store_names df)"
  using assms by (auto simp: store_health_def split: if_splits option.splits)

lemma store_health_of_fields:
  "SH_Store_Name (store_health_of df odf s) = s"
  "total_rows (store_health_of df odf s)
     = length (filter (\<lambda>r. Store_Name_cell r = Some s \<and> Item_Code_cell r \<noteq> None) df)"
  by (simp_all add: store_health_of_def Let_def store_rows_def conj_commute)

lemma store_health_of_score_range:
  assumes "0 < total_rows (store_health_of df odf s)"
  shows "\<exists>a. Data_Health_Score (store_health_of df odf s) = Fin a \<and> 0 \<le> a \<and> a \<le> 100"
proof -
  let ?g = "store_rows df s"
  let ?n = "length (filter (\<lambda>r. Item_Code_cell r \<noteq> None) ?g)"
  have n: "0 < ?n" using assms by (simp add: store_health_of_def Let_def)
  then have g: "0 < length ?g * len_columns"
    by (cases ?g) (simp_all add: len_columns_def)
  define row :: store_stats where "row = \<lparr>pct_negative = pct (length (filter
            (\<lambda>r. case Quantity_cell r of None \<Rightarrow> False | Some q \<Rightarrow> q < 0) ?g)) ?n,
                 pct_missing_rrp = pct (length (filter (\<lambda>r. RRP_cell r = None) ?g)) ?n,
                 pct_outliers = pct (length (filter (\<lambda>(r, out). Store_Name_cell r = Some s \<and> out)
                    odf)) ?n,
                 pct_missing_all_cols = fround 2 (pct (sum_list (map missing_cells ?g))
                    (length ?g * len_columns)),
                 Unreliable_Store = store_unreliable odf s,
                 SH_Store_Name = s, total_rows = ?n,
                 negative_rows = length (filter
            (\<lambda>r. case Quantity_cell r of None \<Rightarrow> False | Some q \<Rightarrow> q < 0) ?g),
                 missing_rrp = length (filter (\<lambda>r. RRP_cell r = None) ?g),
                 outlier_count = length (filter (\<lambda>(r, out). Store_Name_cell r = Some s \<and> out)
                    odf),
                 Data_Health_Score = NaN\<rparr>"
  have e: "Data_Health_Score (store_health_of df odf s) = compute_health_score row"
    by (simp add: store_health_of_def Let_def row_def)
  have "\<exists>a\<ge>0. pct_negative row = Fin a" "\<exists>b\<ge>0. pct_missing_rrp row = Fin b"
    "\<exists>c\<ge>0. pct_outliers row = Fin c" "\<exists>d\<ge>0. pct_missing_all_cols row = Fin d"
    using n g by (simp_all add: row_def pct_def round_dp_nonneg)
  then have "\<exists>s. compute_health_score row = Fin s \<and> 0 \<le> s \<and> s \<le> 100"
    using compute_health_score_range [of row] by blast
  with e show ?thesis by simp
qed

lemma store_health_score_range:
  assumes "store_health df = Inr sh" and "st \<in> set sh" and "0 < total_rows st"
  shows "\<exists>a. Data_Health_Score st = Fin a \<and> 0 \<le> a \<and> a \<le> 100"
proof -
  from store_health_Inr_D [OF assms(1)] obtain odf
    where "sh = map (store_health_of df odf) (store_names df)" by blast
  with assms(2) obtain s where "st = store_health_of df odf s" by auto
  with assms(3) show ?thesis using store_health_of_score_range by blast
qed

lemma fold_fadd_fin_value:
  assumes "\<forall>x \<in> set xs. \<exists>a. f x = Fin a"
  shows "fold (\<lambda>v acc. fadd acc v) (filter (\<lambda>v. \<not> isna v) (map f xs)) (Fin a0)
       = Fin (a0 + sum_list (map (\<lambda>x. fin_value (f x)) xs))"
  using assms
proof (induction xs arbitrary: a0)
  case Nil
  then show ?case by simp
next
  case (Cons x xs)
  then obtain a where a: "f x = Fin a" by auto
  from Cons.prems have "\<forall>x \<in> set xs. \<exists>a. f x = Fin a" by simp
  from Cons.IH [OF this, of "a0 + a"] show ?case
    by (simp add: a isna_def add.assoc)
qed

lemma nansum_fin_value:
  assumes "\<forall>x \<in> set xs. \<exists>a. f x = Fin a"
  shows "nansum (map f xs) = Fin (sum_list (map (\<lambda>x. fin_value (f x)) xs))"
  using fold_fadd_fin_value [OF assms, of 0] by (simp add: nansum_def)

lemma weighted_score_close:
  assumes "sh \<noteq> []" and "\<forall>row \<in> set sh. 0 < total_rows row"
    and fin: "\<forall>row \<in> set sh. \<exists>a. Data_Health_Score row = Fin a"
  shows "\<exists>v i. weighted_score sh = Fin v \<and> v = of_int i / 10
     \<and> \<bar>v - sum_list (map (\<lambda>row. fin_value (Data_Health_Score row) * real (total_rows row)) sh)
              / real (sum_list (map total_rows sh))\<bar> \<le> 1 / 20"
proof -
  have prod: "\<forall>row \<in> set sh. \<exists>a. fmul (Data_Health_Score row) (Fin (real (total_rows row))) = Fin a"
    using fin by auto
  have v: "fin_value (fmul (Data_Health_Score row) (Fin (real (total_rows row))))
      = fin_value (Data_Health_Score row) * real (total_rows row)" if "row \<in> set sh" for row
    using fin that by auto
  have num: "nansum (map (\<lambda>row. fmul (Data_Health_Score row) (Fin (real (total_rows row)))) sh)
      = Fin (sum_list (map (\<lambda>row. fin_value (Data_Health_Score row) * real (total_rows row)) sh))"
    unfolding nansum_fin_value [OF prod] using v by (simp cong: map_cong)
  have den: "sum_list (map total_rows sh) \<noteq> 0"
    using assms(1,2) by (cases sh) auto
  have "weighted_score sh =
      Fin (round_dp 1
        (sum_list (map (\<lambda>row. fin_value (Data_Health_Score row) * real (total_rows row)) sh)
          / real (sum_list (map total_rows sh))))"
    using den by (simp add: weighted_score_def num)
  moreover have "round_dp 1 x = of_int (rint (x * 10)) / 10" for x
    by (simp add: round_dp_def)
  ultimately show ?thesis
    using round_dp_close [of 1] by auto
qed

text \<open>
  C8, as the code has it. On an empty table the pipeline raises \<open>ZeroDivisionError\<close>, and
  when no record has both an RRP and an item code it raises \<open>KeyError\<close>. Otherwise, when
  some record has a store name, it has the table of the stores, one row per store name,
  whose \<open>total_rows\<close> is the number of the store's records with an item code; when every
  store has such a record, every store score is finite and the overall score is the mean
  of the store scores weighted by \<open>total_rows\<close>, rounded to one decimal: a multiple of 0.1
  at most 0.05 away from that mean (a mean half way between two such multiples may be
  rounded either way by the doubles). The quantities sold do not enter.
\<close>

theorem overall_score_row_weighted:
  fixes df :: "raw_sale list"
  shows "(df = [] \<longrightarrow> overall_score df = Inl ZeroDivisionError)
    \<and> (df \<noteq> [] \<and> (\<forall>r \<in> set df. RRP_cell r = None \<or> Item_Code_cell r = None)
          \<longrightarrow> overall_score df = Inl KeyError)
    \<and> ((\<exists>r \<in> set df. RRP_cell r \<noteq> None \<and> Item_Code_cell r \<noteq> None)
        \<and> (\<exists>r \<in> set df. Store_Name_cell r \<noteq> None)
          \<longrightarrow> (\<exists>sh. store_health df = Inr sh \<and> sh \<noteq> []
                \<and> map SH_Store_Name sh = store_names df
                \<and> (\<forall>row \<in> set sh. total_rows row =
                      length (filter (\<lambda>r. Store_Name_cell r = Some (SH_Store_Name row)
                                         \<and> Item_Code_cell r \<noteq> None) df))
                \<and> ((\<forall>row \<in> set sh. 0 < total_rows row) \<longrightarrow>
                     (\<forall>row \<in> set sh. \<exists>a. Data_Health_Score row = Fin a)
                   \<and> (\<exists>v i. overall_score df = Inr (Fin v) \<and> v = of_int i / 10
                        \<and> \<bar>v - sum_list (map (\<lambda>row. fin_value (Data_Health_Score row)
                                                    * real (total_rows row)) sh)
                                 / real (sum_list (map total_rows sh))\<bar> \<le> 1 / 20))))"
proof -
  have a: "df = [] \<longrightarrow> overall_score df = Inl ZeroDivisionError"
    by (simp add: overall_score_def store_health_def)
  have b: "df \<noteq> [] \<and> (\<forall>r \<in> set df. RRP_cell r = None \<or> Item_Code_cell r = None)
          \<longrightarrow> overall_score df = Inl KeyError"
  proof (intro impI, elim conjE)
    assume ne: "df \<noteq> []" and "\<forall>r \<in> set df. RRP_cell r = None \<or> Item_Code_cell r = None"
    then have "outliers_df df = None" by (simp add: outliers_df_None_iff)
    with ne show "overall_score df = Inl KeyError"
      by (simp add: overall_score_def store_health_def)
  qed
  have c: "\<exists>sh. store_health df = Inr sh \<and> sh \<noteq> []
                \<and> map SH_Store_Name sh = store_names df
                \<and> (\<forall>row \<in> set sh. total_rows row =
                      length (filter (\<lambda>r. Store_Name_cell r = Some (SH_Store_Name row)
                                         \<and> Item_Code_cell r \<noteq> None) df))
                \<and> ((\<forall>row \<in> set sh. 0 < total_rows row) \<longrightarrow>
                     (\<forall>row \<in> set sh. \<exists>a. Data_Health_Score row = Fin a)
                   \<and> (\<exists>v i. overall_score df = Inr (Fin v) \<and> v = of_int i / 10
                        \<and> \<bar>v - sum_list (map (\<lambda>row. fin_value (Data_Health_Score row)
                                                    * real (total_rows row)) sh)
                                 / real (sum_list (map total_rows sh))\<bar> \<le> 1 / 20))"
    if ex: "\<exists>r \<in> set df. RRP_cell r \<noteq> None \<and> Item_Code_cell r \<noteq> None"
      and st: "\<exists>r \<in> set df. Store_Name_cell r \<noteq> None"
  proof -
    from ex have ne: "df \<noteq> []" by auto
    from store_health_Inr [OF ne ex] obtain odf
      where sh: "store_health df = Inr (map (store_health_of df odf) (store_names df))" by blast
    define sh where "sh = map (store_health_of df odf) (store_names df)"
    have s1: "store_health df = Inr sh" by (simp add: sh sh_def)
    from st have "store_names df \<noteq> []"
      by (auto simp: store_names_def sort_eq_Nil_iff map_filter_def filter_empty_conv)
    then have s0: "sh \<noteq> []" by (simp add: sh_def)
    have s2: "map SH_Store_Name sh = store_names df"
      by (simp add: sh_def o_def store_health_of_fields)
    have s3: "\<forall>row \<in> set sh. total_rows row =
          length (filter (\<lambda>r. Store_Name_cell r = Some (SH_Store_Name row)
                             \<and> Item_Code_cell r \<noteq> None) df)"
      by (auto simp: sh_def store_health_of_fields)
    have s4: "(\<forall>row \<in> set sh. \<exists>a. Data_Health_Score row = Fin a)
         \<and> (\<exists>v i. overall_score df = Inr (Fin v) \<and> v = of_int i / 10
              \<and> \<bar>v - sum_list (map (\<lambda>row. fin_value (Data_Health_Score row)
                                          * real (total_rows row)) sh)
                       / real (sum_list (map total_rows sh))\<bar> \<le> 1 / 20)"
      if h: "\<forall>row \<in> set sh. 0 < total_rows row"
    proof -
      have fin: "\<forall>row \<in> set sh. \<exists>a. Data_Health_Score row = Fin a"
        using store_health_score_range [OF s1] h by blast
      from weighted_score_close [OF s0 h fin] show ?thesis
        using fin by (simp add: overall_score_def s1)
    qed
    from s0 s1 s2 s3 s4 show ?thesis by blast
  qed
  from a b c show ?thesis by blast
qed

lemma health_sales_outliers_df:
  "outliers_df health_sales =
     Some [(mk_raw ''B'' 1 3 (Some 100), False), (mk_raw ''B'' 2 4 (Some 100), False)]"
  by (simp add: outliers_df_def health_sales_def mk_raw_def map_filter_def
      detect_outliers_def iqr_bounds_def quantile_def interp_def is_outlier_def fsub_def
      fgt_def Let_def)

lemma health_sales_store_health: "store_health health_sales = Inr health_table"
  unfolding store_health_def health_sales_outliers_df
  by (simp add: store_names_def health_sales_def mk_raw_def map_filter_def health_table_def
      store_health_of_def store_rows_def store_unreliable_def pct_def missing_cells_def
      len_columns_def compute_health_score_def fsub_def py_max_def fgt_def round_dp_def rint_def
      Let_def)

text \<open>
  C7. For finite, nonnegative percentages of negative values, missing RRP, outliers and
  missing cells, the per-store Data Health Score is a finite number in [0, 100], and it is
  exactly 100 when the four percentages are zero and the store is not flagged unreliable.
  The percentages the pipeline computes for a store are such: for every input table, the
  row it computes for a store that has a record with an item code has a score in
  [0, 100], whatever the table of outlier flags; so has every such store of the table of
  stores, on every input on which the pipeline gets as far as that table.
\<close>

theorem health_score_range:
  fixes row :: "'a store_health_row_scheme" and df :: "raw_sale list"
  shows "(pct_negative row = Fin a \<and> 0 \<le> a \<and> pct_missing_rrp row = Fin b \<and> 0 \<le> b
        \<and> pct_outliers row = Fin c \<and> 0 \<le> c \<and> pct_missing_all_cols row = Fin d \<and> 0 \<le> d
      \<longrightarrow> (\<exists>s. compute_health_score row = Fin s \<and> 0 \<le> s \<and> s \<le> 100
            \<and> (a = 0 \<and> b = 0 \<and> c = 0 \<and> d = 0 \<and> \<not> Unreliable_Store row \<longrightarrow> s = 100)))
    \<and> (\<forall>odf store. 0 < total_rows (store_health_of df odf store) \<longrightarrow>
          (\<exists>s. Data_Health_Score (store_health_of df odf store) = Fin s \<and> 0 \<le> s \<and> s \<le> 100))
    \<and> (\<forall>sh. store_health df = Inr sh \<longrightarrow>
         (\<forall>st \<in> set sh. 0 < total_rows st \<longrightarrow>
            (\<exists>s. Data_Health_Score st = Fin s \<and> 0 \<le> s \<and> s \<le> 100)))"
proof -
  have q: "\<forall>odf store. 0 < total_rows (store_health_of df odf store) \<longrightarrow>
          (\<exists>s. Data_Health_Score (store_health_of df odf store) = Fin s \<and> 0 \<le> s \<and> s \<le> 100)"
    using store_health_of_score_range by blast
  have p: "\<forall>sh. store_health df = Inr sh \<longrightarrow>
         (\<forall>st \<in> set sh. 0 < total_rows st \<longrightarrow>
            (\<exists>s. Data_Health_Score st = Fin s \<and> 0 \<le> s \<and> s \<le> 100))"
    using store_health_score_range by blast
  show ?thesis
    using compute_health_score_range [of row a b c d] p q by blast
qed

theorem health_score_range_witness:
  "(\<exists>s. compute_health_score \<lparr>pct_negative = Fin 0, pct_missing_rrp = Fin 0,
        pct_outliers = Fin 0, pct_missing_all_cols = Fin 0, Unreliable_Store = False\<rparr> = Fin s
     \<and> 0 \<le> s \<and> s \<le> 100 \<and> s = 100)
   \<and> store_health health_sales = Inr health_table
   \<and> (\<exists>s. Data_Health_Score (health_table ! 0) = Fin s \<and> 0 \<le> s \<and> s \<le> 100)
   \<and> (\<exists>s. Data_Health_Score (store_health_of health_sales [] ''B'') = Fin s
          \<and> 0 \<le> s \<and> s \<le> 100)"
proof -
  have m: "health_table ! 0 \<in> set health_table" "0 < total_rows (health_table ! 0)"
    "0 < total_rows (store_health_of health_sales [] ''B'')"
    by (simp_all add: health_table_def store_health_of_fields health_sales_def mk_raw_def)
  from health_score_range [of "\<lparr>pct_negative = Fin 0, pct_missing_rrp = Fin 0,
        pct_outliers = Fin 0, pct_missing_all_cols = Fin 0, Unreliable_Store = False\<rparr>" 0 0 0 0
        health_sales] m health_sales_store_health
  show ?thesis by simp
qed

theorem overall_score_row_weighted_witness:
  "(\<exists>v. overall_score health_sales = Inr (Fin v) \<and> \<bar>v - 2827 / 30\<bar> \<le> 1 / 20)
   \<and> overall_score [] = Inl ZeroDivisionError
   \<and> overall_score health_sales_no_rrp = Inl KeyError"
proof -
  have h: "\<exists>r \<in> set health_sales. RRP_cell r \<noteq> None \<and> Item_Code_cell r \<noteq> None"
    "\<exists>r \<in> set health_sales. Store_Name_cell r \<noteq> None"
    by (simp_all add: health_sales_def mk_raw_def)
  have t: "\<forall>row \<in> set health_table. 0 < total_rows row"
    by (simp add: health_table_def)
  have n: "health_sales_no_rrp \<noteq> []"
    "\<forall>r \<in> set health_sales_no_rrp. RRP_cell r = None \<or> Item_Code_cell r = None"
    by (simp_all add: health_sales_no_rrp_def mk_raw_def)
  from overall_score_row_weighted [of health_sales] h health_sales_store_health t
  have "\<exists>v. overall_score health_sales = Inr (Fin v)
        \<and> \<bar>v - sum_list (map (\<lambda>row. fin_value (Data_Health_Score row)
                                    * real (total_rows row)) health_table)
                 / real (sum_list (map total_rows health_table))\<bar> \<le> 1 / 20"
    by auto
  then have 1: "\<exists>v. overall_score health_sales = Inr (Fin v) \<and> \<bar>v - 2827 / 30\<bar> \<le> 1 / 20"
    by (simp add: health_table_def)
  from overall_score_row_weighted [of "[]"]
  have 2: "overall_score [] = Inl ZeroDivisionError" by simp
  from overall_score_row_weighted [of health_sales_no_rrp] n
  have 3: "overall_score health_sales_no_rrp = Inl KeyError" by blast
  from 1 2 3 show ?thesis by blast
qed

text \<open>
  The claim as stated, with quantity weights, fails: the store scores of \<open>health_sales\<close>
  are 82.7 (one record, 1 unit) and 100 (two records, 7 units); the code gives
  (82.7 + 2 * 100) / 3 = 94.233..., rounded 94.2, and the quantity-weighted mean is
  (82.7 * 1 + 100 * 7) / 8 = 97.8375.
\<close>

theorem overall_score_quantity_counterexample:
  "store_health health_sales = Inr health_table
   \<and> overall_score health_sales = Inr (Fin (471 / 5))
   \<and> overall_score_spec health_sales health_table = Fin (7827 / 80)
   \<and> fround 1 (overall_score_spec health_sales health_table) = Fin (489 / 5)
   \<and> overall_score health_sales \<noteq> Inr (fround 1 (overall_score_spec health_sales health_table))"
proof -
  have q: "store_quantity health_sales ''A'' = 1" "store_quantity health_sales ''B'' = 7"
    by (simp_all add: store_quantity_def store_rows_def health_sales_def mk_raw_def
        map_filter_def)
  have s: "overall_score_spec health_sales health_table = Fin (7827 / 80)"
    by (simp add: overall_score_spec_def health_table_def q nansum_def isna_def)
  have o: "overall_score health_sales = Inr (Fin (471 / 5))"
    by (simp add: overall_score_def health_sales_store_health weighted_score_def
        health_table_def nansum_def isna_def round_dp_def rint_def Let_def)
  have r: "fround 1 (Fin (7827 / 80)) = Fin (489 / 5)"
    by (simp add: round_dp_def rint_def Let_def)
  from s o r health_sales_store_health show ?thesis by simp
qed

end
